theory Spec2Isabelle
  imports Main "HOL-Library.Word"
begin

unbundle bit_operations_syntax

section \<open>Machine integers and memories\<close>

text \<open>
  The C sources use \<^verbatim>\<open>uint8_t\<close>, \<^verbatim>\<open>uint16_t\<close>, \<^verbatim>\<open>uint32_t\<close> and \<^verbatim>\<open>uint64_t\<close>; they are
  words of that width, so every addition and subtraction wraps as in C.  A C \<^verbatim>\<open>int\<close> that
  only holds small intermediate values (nibble sums, scanline numbers, pixel positions) is
  an \<^typ>\<open>int\<close>.  A fixed-size C array is a total function from the index to the element;
  every index the code computes is masked or bounded below the array size.
\<close>

type_synonym u8 = "8 word"
type_synonym u16 = "16 word"
type_synonym u32 = "32 word"
type_synonym u64 = "64 word"

section \<open>6502 CPU state (cpu6502.h)\<close>

definition CPU_FLAG_C :: u8 where "CPU_FLAG_C = 0x01"
definition CPU_FLAG_Z :: u8 where "CPU_FLAG_Z = 0x02"
definition CPU_FLAG_I :: u8 where "CPU_FLAG_I = 0x04"
definition CPU_FLAG_D :: u8 where "CPU_FLAG_D = 0x08"
definition CPU_FLAG_B :: u8 where "CPU_FLAG_B = 0x10"
definition CPU_FLAG_U :: u8 where "CPU_FLAG_U = 0x20"
definition CPU_FLAG_V :: u8 where "CPU_FLAG_V = 0x40"
definition CPU_FLAG_N :: u8 where "CPU_FLAG_N = 0x80"

text \<open>
  The struct \<^verbatim>\<open>cpu6502_t\<close>.  The two function pointers \<^verbatim>\<open>read\<close> and \<^verbatim>\<open>write\<close> act on the
  bus context \<^verbatim>\<open>bus_ctx\<close>; a bus read may change the context (a PPU register read does), so
  it returns the byte together with the new context.  The type \<open>'b\<close> of the context is
  arbitrary: the flat 64 KiB RAM and the NES bus are two instances.  A bus function acts
  on its context only, as both of the repository do; it has no access to the registers of
  the CPU that calls it.
\<close>

record 'b cpu6502_t =
  a :: u8
  x :: u8
  y :: u8
  sp :: u8
  pc :: u16
  status :: u8
  cycles :: u64
  halted :: bool
  page_crossed :: bool
  read :: "'b \<Rightarrow> u16 \<Rightarrow> u8 \<times> 'b"
  "write" :: "'b \<Rightarrow> u16 \<Rightarrow> u8 \<Rightarrow> 'b"
  bus_ctx :: 'b

definition cpu_set_flag :: "'b cpu6502_t \<Rightarrow> u8 \<Rightarrow> bool \<Rightarrow> 'b cpu6502_t" where
  "cpu_set_flag cpu flag val =
     (if val then cpu\<lparr>status := status cpu OR flag\<rparr>
      else cpu\<lparr>status := status cpu AND NOT flag\<rparr>)"

definition cpu_get_flag :: "'b cpu6502_t \<Rightarrow> u8 \<Rightarrow> bool" where
  "cpu_get_flag cpu flag = (status cpu AND flag \<noteq> 0)"

definition cpu_set_nz :: "'b cpu6502_t \<Rightarrow> u8 \<Rightarrow> 'b cpu6502_t" where
  "cpu_set_nz cpu val =
     (let cpu = cpu_set_flag cpu CPU_FLAG_N (val AND 0x80 \<noteq> 0)
      in cpu_set_flag cpu CPU_FLAG_Z (val = 0))"

definition cpu_read :: "'b cpu6502_t \<Rightarrow> u16 \<Rightarrow> u8 \<times> 'b cpu6502_t" where
  "cpu_read cpu addr =
     (let (val, ctx) = read cpu (bus_ctx cpu) addr in (val, cpu\<lparr>bus_ctx := ctx\<rparr>))"

definition cpu_write :: "'b cpu6502_t \<Rightarrow> u16 \<Rightarrow> u8 \<Rightarrow> 'b cpu6502_t" where
  "cpu_write cpu addr val = cpu\<lparr>bus_ctx := write cpu (bus_ctx cpu) addr val\<rparr>"

definition cpu_push :: "'b cpu6502_t \<Rightarrow> u8 \<Rightarrow> 'b cpu6502_t" where
  "cpu_push cpu val =
     (let cpu = cpu_write cpu (0x0100 + ucast (sp cpu)) val
      in cpu\<lparr>sp := sp cpu - 1\<rparr>)"

definition cpu_pull :: "'b cpu6502_t \<Rightarrow> u8 \<times> 'b cpu6502_t" where
  "cpu_pull cpu =
     (let cpu = cpu\<lparr>sp := sp cpu + 1\<rparr>
      in cpu_read cpu (0x0100 + ucast (sp cpu)))"

definition cpu_push16 :: "'b cpu6502_t \<Rightarrow> u16 \<Rightarrow> 'b cpu6502_t" where
  "cpu_push16 cpu val =
     (let cpu = cpu_push cpu (ucast (drop_bit 8 val AND 0xFF))
      in cpu_push cpu (ucast (val AND 0xFF)))"

definition cpu_pull16 :: "'b cpu6502_t \<Rightarrow> u16 \<times> 'b cpu6502_t" where
  "cpu_pull16 cpu =
     (let (lo, cpu) = cpu_pull cpu;
          (hi, cpu) = cpu_pull cpu
      in (push_bit 8 (ucast hi) OR ucast lo, cpu))"

section \<open>Addressing mode helpers (opcodes.c, part 1)\<close>

text \<open>
  Each helper returns the effective address and the CPU with \<^verbatim>\<open>pc\<close> advanced.  In
  \<^verbatim>\<open>cpu_read(cpu, cpu->pc++)\<close> the increment is part of the argument, so it happens
  before the bus is read.
\<close>

definition addr_imm :: "'b cpu6502_t \<Rightarrow> u16 \<times> 'b cpu6502_t" where
  "addr_imm cpu = (pc cpu, cpu\<lparr>pc := pc cpu + 1\<rparr>)"

definition addr_zpg :: "'b cpu6502_t \<Rightarrow> u16 \<times> 'b cpu6502_t" where
  "addr_zpg cpu =
     (let (operand, cpu) = cpu_read (cpu\<lparr>pc := pc cpu + 1\<rparr>) (pc cpu)
      in (ucast operand, cpu))"

definition addr_zpx :: "'b cpu6502_t \<Rightarrow> u16 \<times> 'b cpu6502_t" where
  "addr_zpx cpu =
     (let (operand, cpu) = cpu_read (cpu\<lparr>pc := pc cpu + 1\<rparr>) (pc cpu)
      in ((ucast operand + ucast (x cpu)) AND 0xFF, cpu))"

definition addr_zpy :: "'b cpu6502_t \<Rightarrow> u16 \<times> 'b cpu6502_t" where
  "addr_zpy cpu =
     (let (operand, cpu) = cpu_read (cpu\<lparr>pc := pc cpu + 1\<rparr>) (pc cpu)
      in ((ucast operand + ucast (y cpu)) AND 0xFF, cpu))"

definition addr_abs :: "'b cpu6502_t \<Rightarrow> u16 \<times> 'b cpu6502_t" where
  "addr_abs cpu =
     (let (lo, cpu) = cpu_read (cpu\<lparr>pc := pc cpu + 1\<rparr>) (pc cpu);
          (hi, cpu) = cpu_read (cpu\<lparr>pc := pc cpu + 1\<rparr>) (pc cpu)
      in (push_bit 8 (ucast hi) OR ucast lo, cpu))"

definition addr_abx :: "'b cpu6502_t \<Rightarrow> u16 \<times> 'b cpu6502_t" where
  "addr_abx cpu =
     (let (base, cpu) = addr_abs cpu;
          addr = base + ucast (x cpu)
      in (addr, cpu\<lparr>page_crossed := (base AND 0xFF00 \<noteq> addr AND 0xFF00)\<rparr>))"

definition addr_aby :: "'b cpu6502_t \<Rightarrow> u16 \<times> 'b cpu6502_t" where
  "addr_aby cpu =
     (let (base, cpu) = addr_abs cpu;
          addr = base + ucast (y cpu)
      in (addr, cpu\<lparr>page_crossed := (base AND 0xFF00 \<noteq> addr AND 0xFF00)\<rparr>))"

definition addr_izx :: "'b cpu6502_t \<Rightarrow> u16 \<times> 'b cpu6502_t" where
  "addr_izx cpu =
     (let (operand, cpu) = cpu_read (cpu\<lparr>pc := pc cpu + 1\<rparr>) (pc cpu);
          ptr = (ucast ((ucast operand + ucast (x cpu)) AND (0xFF :: u16)) :: u8);
          (lo, cpu) = cpu_read cpu (ucast ptr);
          (hi, cpu) = cpu_read cpu ((ucast ptr + 1) AND 0xFF)
      in (push_bit 8 (ucast hi) OR ucast lo, cpu))"

definition addr_izy :: "'b cpu6502_t \<Rightarrow> u16 \<times> 'b cpu6502_t" where
  "addr_izy cpu =
     (let (ptr, cpu) = cpu_read (cpu\<lparr>pc := pc cpu + 1\<rparr>) (pc cpu);
          (lo, cpu) = cpu_read cpu (ucast ptr);
          (hi, cpu) = cpu_read cpu ((ucast ptr + 1) AND 0xFF);
          base = push_bit 8 (ucast hi) OR ucast lo;
          addr = base + ucast (y cpu)
      in (addr, cpu\<lparr>page_crossed := (base AND 0xFF00 \<noteq> addr AND 0xFF00)\<rparr>))"

section \<open>Shared instruction cores (opcodes.c, part 2)\<close>

text \<open>
  In \<^verbatim>\<open>do_adc\<close> and \<^verbatim>\<open>do_sbc\<close> the operands are promoted to C \<^verbatim>\<open>int\<close>; the nibble values
  \<^verbatim>\<open>al\<close> and \<^verbatim>\<open>ah\<close> are \<^verbatim>\<open>int\<close> variables (negative in \<^verbatim>\<open>do_sbc\<close>), \<^verbatim>\<open>bin\<close> and \<^verbatim>\<open>sum\<close> are
  \<^verbatim>\<open>uint16_t\<close>.  The bitwise operators on \<^typ>\<open>int\<close> are those of two's complement, as in C.
\<close>

definition do_adc :: "'b cpu6502_t \<Rightarrow> u8 \<Rightarrow> 'b cpu6502_t" where
  "do_adc cpu val =
     (if cpu_get_flag cpu CPU_FLAG_D then
        let a0 = uint (a cpu);
            m = uint val;
            carry = (if cpu_get_flag cpu CPU_FLAG_C then 1 else 0 :: int);
            bin = (word_of_int (a0 + m + carry) :: u16);
            cpu = cpu_set_flag cpu CPU_FLAG_Z (bin AND 0xFF = 0);
            al = (a0 AND 0x0F) + (m AND 0x0F) + carry;
            al = (if al > 9 then al + 6 else al);
            ah = drop_bit 4 a0 + drop_bit 4 m + (if al > 0x0F then 1 else 0);
            partial = (word_of_int (push_bit 4 ah OR (al AND 0x0F)) :: u8);
            cpu = cpu_set_flag cpu CPU_FLAG_N (partial AND 0x80 \<noteq> 0);
            cpu = cpu_set_flag cpu CPU_FLAG_V
                    (NOT (a0 XOR m) AND (a0 XOR push_bit 4 ah) AND 0x80 \<noteq> 0);
            ah = (if ah > 9 then ah + 6 else ah);
            cpu = cpu_set_flag cpu CPU_FLAG_C (ah > 0x0F)
        in cpu\<lparr>a := word_of_int (push_bit 4 (ah AND 0x0F) OR (al AND 0x0F))\<rparr>
      else
        let a0 = uint (a cpu);
            m = uint val;
            sum = (word_of_int (a0 + m + (if cpu_get_flag cpu CPU_FLAG_C then 1 else 0)) :: u16);
            cpu = cpu_set_flag cpu CPU_FLAG_V
                    (NOT (a0 XOR m) AND (a0 XOR uint sum) AND 0x80 \<noteq> 0);
            cpu = cpu_set_flag cpu CPU_FLAG_C (sum > 0xFF);
            cpu = cpu\<lparr>a := ucast (sum AND 0xFF)\<rparr>
        in cpu_set_nz cpu (a cpu))"

definition do_sbc :: "'b cpu6502_t \<Rightarrow> u8 \<Rightarrow> 'b cpu6502_t" where
  "do_sbc cpu val =
     (if cpu_get_flag cpu CPU_FLAG_D then
        let a0 = uint (a cpu);
            m = uint val;
            borrow = (if cpu_get_flag cpu CPU_FLAG_C then 0 else 1 :: int);
            bin = (word_of_int (a0 - m - borrow) :: u16);
            cpu = cpu_set_flag cpu CPU_FLAG_C (\<not> (bin AND 0x100 \<noteq> 0));
            cpu = cpu_set_flag cpu CPU_FLAG_Z (bin AND 0xFF = 0);
            cpu = cpu_set_flag cpu CPU_FLAG_N (bin AND 0x80 \<noteq> 0);
            cpu = cpu_set_flag cpu CPU_FLAG_V
                    ((a0 XOR m) AND (a0 XOR uint bin) AND 0x80 \<noteq> 0);
            al = (a0 AND 0x0F) - (m AND 0x0F) - borrow;
            al = (if al < 0 then ((al - 6) AND 0x0F) - 0x10 else al);
            ah = drop_bit 4 a0 - drop_bit 4 m + (if al < 0 then - 1 else 0);
            ah = (if ah < 0 then ah - 6 else ah)
        in cpu\<lparr>a := word_of_int (push_bit 4 (ah AND 0x0F) OR (al AND 0x0F))\<rparr>
      else do_adc cpu (NOT val))"

definition do_cmp :: "'b cpu6502_t \<Rightarrow> u8 \<Rightarrow> u8 \<Rightarrow> 'b cpu6502_t" where
  "do_cmp cpu reg val =
     (let result = (word_of_int (uint reg - uint val) :: u16);
          cpu = cpu_set_flag cpu CPU_FLAG_C (reg \<ge> val);
          cpu = cpu_set_flag cpu CPU_FLAG_Z (reg = val)
      in cpu_set_flag cpu CPU_FLAG_N (result AND 0x80 \<noteq> 0))"

definition do_and :: "'b cpu6502_t \<Rightarrow> u8 \<Rightarrow> 'b cpu6502_t" where
  "do_and cpu val = (let cpu = cpu\<lparr>a := a cpu AND val\<rparr> in cpu_set_nz cpu (a cpu))"

definition do_ora :: "'b cpu6502_t \<Rightarrow> u8 \<Rightarrow> 'b cpu6502_t" where
  "do_ora cpu val = (let cpu = cpu\<lparr>a := a cpu OR val\<rparr> in cpu_set_nz cpu (a cpu))"

definition do_eor :: "'b cpu6502_t \<Rightarrow> u8 \<Rightarrow> 'b cpu6502_t" where
  "do_eor cpu val = (let cpu = cpu\<lparr>a := a cpu XOR val\<rparr> in cpu_set_nz cpu (a cpu))"

definition do_asl :: "'b cpu6502_t \<Rightarrow> u8 \<Rightarrow> u8 \<times> 'b cpu6502_t" where
  "do_asl cpu val =
     (let cpu = cpu_set_flag cpu CPU_FLAG_C (val AND 0x80 \<noteq> 0);
          val = push_bit 1 val;
          cpu = cpu_set_nz cpu val
      in (val, cpu))"

definition do_lsr :: "'b cpu6502_t \<Rightarrow> u8 \<Rightarrow> u8 \<times> 'b cpu6502_t" where
  "do_lsr cpu val =
     (let cpu = cpu_set_flag cpu CPU_FLAG_C (val AND 0x01 \<noteq> 0);
          val = drop_bit 1 val;
          cpu = cpu_set_nz cpu val
      in (val, cpu))"

definition do_rol :: "'b cpu6502_t \<Rightarrow> u8 \<Rightarrow> u8 \<times> 'b cpu6502_t" where
  "do_rol cpu val =
     (let old_carry = (if cpu_get_flag cpu CPU_FLAG_C then 1 else 0 :: u8);
          cpu = cpu_set_flag cpu CPU_FLAG_C (val AND 0x80 \<noteq> 0);
          val = push_bit 1 val OR old_carry;
          cpu = cpu_set_nz cpu val
      in (val, cpu))"

definition do_ror :: "'b cpu6502_t \<Rightarrow> u8 \<Rightarrow> u8 \<times> 'b cpu6502_t" where
  "do_ror cpu val =
     (let old_carry = (if cpu_get_flag cpu CPU_FLAG_C then 0x80 else 0 :: u8);
          cpu = cpu_set_flag cpu CPU_FLAG_C (val AND 0x01 \<noteq> 0);
          val = drop_bit 1 val OR old_carry;
          cpu = cpu_set_nz cpu val
      in (val, cpu))"

section \<open>Opcode handlers (opcodes.c, part 3)\<close>

text \<open>
  One definition per handler \<^verbatim>\<open>op_<mnemonic>_<mode>\<close>, in the order of the source.  The
  diagnostic \<^verbatim>\<open>fprintf\<close> of \<^verbatim>\<open>op_ill\<close> has no effect on the state and is left out.  In
  \<^verbatim>\<open>op_brk\<close> the two vector reads are taken from left to right.
\<close>

definition op_ill :: "'b cpu6502_t \<Rightarrow> 'b cpu6502_t" where
  "op_ill cpu =
     (cpu\<lparr>halted := True\<rparr>)"

definition op_lda_imm :: "'b cpu6502_t \<Rightarrow> 'b cpu6502_t" where
  "op_lda_imm cpu =
     (let (addr, cpu) = addr_imm cpu;
          (val, cpu) = cpu_read cpu addr;
          cpu = cpu\<lparr>a := val\<rparr>;
          cpu = cpu_set_nz cpu (a cpu)
      in cpu)"

definition op_lda_zpg :: "'b cpu6502_t \<Rightarrow> 'b cpu6502_t" where
  "op_lda_zpg cpu =
     (let (addr, cpu) = addr_zpg cpu;
          (val, cpu) = cpu_read cpu addr;
          cpu = cpu\<lparr>a := val\<rparr>;
          cpu = cpu_set_nz cpu (a cpu)
      in cpu)"

definition op_lda_zpx :: "'b cpu6502_t \<Rightarrow> 'b cpu6502_t" where
  "op_lda_zpx cpu =
     (let (addr, cpu) = addr_zpx cpu;
          (val, cpu) = cpu_read cpu addr;
          cpu = cpu\<lparr>a := val\<rparr>;
          cpu = cpu_set_nz cpu (a cpu)
      in cpu)"

definition op_lda_abs :: "'b cpu6502_t \<Rightarrow> 'b cpu6502_t" where
  "op_lda_abs cpu =
     (let (addr, cpu) = addr_abs cpu;
          (val, cpu) = cpu_read cpu addr;
          cpu = cpu\<lparr>a := val\<rparr>;
          cpu = cpu_set_nz cpu (a cpu)
      in cpu)"

definition op_lda_abx :: "'b cpu6502_t \<Rightarrow> 'b cpu6502_t" where
  "op_lda_abx cpu =
     (let (addr, cpu) = addr_abx cpu;
          (val, cpu) = cpu_read cpu addr;
          cpu = cpu\<lparr>a := val\<rparr>;
          cpu = cpu_set_nz cpu (a cpu)
      in if page_crossed cpu then cpu\<lparr>cycles := cycles cpu + 1\<rparr> else cpu)"

definition op_lda_aby :: "'b cpu6502_t \<Rightarrow> 'b cpu6502_t" where
  "op_lda_aby cpu =
     (let (addr, cpu) = addr_aby cpu;
          (val, cpu) = cpu_read cpu addr;
          cpu = cpu\<lparr>a := val\<rparr>;
          cpu = cpu_set_nz cpu (a cpu)
      in if page_crossed cpu then cpu\<lparr>cycles := cycles cpu + 1\<rparr> else cpu)"

definition op_lda_izx :: "'b cpu6502_t \<Rightarrow> 'b cpu6502_t" where
  "op_lda_izx cpu =
     (let (addr, cpu) = addr_izx cpu;
          (val, cpu) = cpu_read cpu addr;
          cpu = cpu\<lparr>a := val\<rparr>;
          cpu = cpu_set_nz cpu (a cpu)
      in cpu)"

definition op_lda_izy :: "'b cpu6502_t \<Rightarrow> 'b cpu6502_t" where
  "op_lda_izy cpu =
     (let (addr, cpu) = addr_izy cpu;
          (val, cpu) = cpu_read cpu addr;
          cpu = cpu\<lparr>a := val\<rparr>;
          cpu = cpu_set_nz cpu (a cpu)
      in if page_crossed cpu then cpu\<lparr>cycles := cycles cpu + 1\<rparr> else cpu)"

definition op_ldx_imm :: "'b cpu6502_t \<Rightarrow> 'b cpu6502_t" where
  "op_ldx_imm cpu =
     (let (addr, cpu) = addr_imm cpu;
          (val, cpu) = cpu_read cpu addr;
          cpu = cpu\<lparr>x := val\<rparr>;
          cpu = cpu_set_nz cpu (x cpu)
      in cpu)"

definition op_ldx_zpg :: "'b cpu6502_t \<Rightarrow> 'b cpu6502_t" where
  "op_ldx_zpg cpu =
     (let (addr, cpu) = addr_zpg cpu;
          (val, cpu) = cpu_read cpu addr;
          cpu = cpu\<lparr>x := val\<rparr>;
          cpu = cpu_set_nz cpu (x cpu)
      in cpu)"

definition op_ldx_zpy :: "'b cpu6502_t \<Rightarrow> 'b cpu6502_t" where
  "op_ldx_zpy cpu =
     (let (addr, cpu) = addr_zpy cpu;
          (val, cpu) = cpu_read cpu addr;
          cpu = cpu\<lparr>x := val\<rparr>;
          cpu = cpu_set_nz cpu (x cpu)
      in cpu)"

definition op_ldx_abs :: "'b cpu6502_t \<Rightarrow> 'b cpu6502_t" where
  "op_ldx_abs cpu =
     (let (addr, cpu) = addr_abs cpu;
          (val, cpu) = cpu_read cpu addr;
          cpu = cpu\<lparr>x := val\<rparr>;
          cpu = cpu_set_nz cpu (x cpu)
      in cpu)"

definition op_ldx_aby :: "'b cpu6502_t \<Rightarrow> 'b cpu6502_t" where
  "op_ldx_aby cpu =
     (let (addr, cpu) = addr_aby cpu;
          (val, cpu) = cpu_read cpu addr;
          cpu = cpu\<lparr>x := val\<rparr>;
          cpu = cpu_set_nz cpu (x cpu)
      in if page_crossed cpu then cpu\<lparr>cycles := cycles cpu + 1\<rparr> else cpu)"

definition op_ldy_imm :: "'b cpu6502_t \<Rightarrow> 'b cpu6502_t" where
  "op_ldy_imm cpu =
     (let (addr, cpu) = addr_imm cpu;
          (val, cpu) = cpu_read cpu addr;
          cpu = cpu\<lparr>y := val\<rparr>;
          cpu = cpu_set_nz cpu (y cpu)
      in cpu)"

definition op_ldy_zpg :: "'b cpu6502_t \<Rightarrow> 'b cpu6502_t" where
  "op_ldy_zpg cpu =
     (let (addr, cpu) = addr_zpg cpu;
          (val, cpu) = cpu_read cpu addr;
          cpu = cpu\<lparr>y := val\<rparr>;
          cpu = cpu_set_nz cpu (y cpu)
      in cpu)"

definition op_ldy_zpx :: "'b cpu6502_t \<Rightarrow> 'b cpu6502_t" where
  "op_ldy_zpx cpu =
     (let (addr, cpu) = addr_zpx cpu;
          (val, cpu) = cpu_read cpu addr;
          cpu = cpu\<lparr>y := val\<rparr>;
          cpu = cpu_set_nz cpu (y cpu)
      in cpu)"

definition op_ldy_abs :: "'b cpu6502_t \<Rightarrow> 'b cpu6502_t" where
  "op_ldy_abs cpu =
     (let (addr, cpu) = addr_abs cpu;
          (val, cpu) = cpu_read cpu addr;
          cpu = cpu\<lparr>y := val\<rparr>;
          cpu = cpu_set_nz cpu (y cpu)
      in cpu)"

definition op_ldy_abx :: "'b cpu6502_t \<Rightarrow> 'b cpu6502_t" where
  "op_ldy_abx cpu =
     (let (addr, cpu) = addr_abx cpu;
          (val, cpu) = cpu_read cpu addr;
          cpu = cpu\<lparr>y := val\<rparr>;
          cpu = cpu_set_nz cpu (y cpu)
      in if page_crossed cpu then cpu\<lparr>cycles := cycles cpu + 1\<rparr> else cpu)"

definition op_sta_zpg :: "'b cpu6502_t \<Rightarrow> 'b cpu6502_t" where
  "op_sta_zpg cpu =
     (let (addr, cpu) = addr_zpg cpu
      in cpu_write cpu addr (a cpu))"

definition op_sta_zpx :: "'b cpu6502_t \<Rightarrow> 'b cpu6502_t" where
  "op_sta_zpx cpu =
     (let (addr, cpu) = addr_zpx cpu
      in cpu_write cpu addr (a cpu))"

definition op_sta_abs :: "'b cpu6502_t \<Rightarrow> 'b cpu6502_t" where
  "op_sta_abs cpu =
     (let (addr, cpu) = addr_abs cpu
      in cpu_write cpu addr (a cpu))"

definition op_sta_abx :: "'b cpu6502_t \<Rightarrow> 'b cpu6502_t" where
  "op_sta_abx cpu =
     (let (addr, cpu) = addr_abx cpu
      in cpu_write cpu addr (a cpu))"

definition op_sta_aby :: "'b cpu6502_t \<Rightarrow> 'b cpu6502_t" where
  "op_sta_aby cpu =
     (let (addr, cpu) = addr_aby cpu
      in cpu_write cpu addr (a cpu))"

definition op_sta_izx :: "'b cpu6502_t \<Rightarrow> 'b cpu6502_t" where
  "op_sta_izx cpu =
     (let (addr, cpu) = addr_izx cpu
      in cpu_write cpu addr (a cpu))"

definition op_sta_izy :: "'b cpu6502_t \<Rightarrow> 'b cpu6502_t" where
  "op_sta_izy cpu =
     (let (addr, cpu) = addr_izy cpu
      in cpu_write cpu addr (a cpu))"

definition op_stx_zpg :: "'b cpu6502_t \<Rightarrow> 'b cpu6502_t" where
  "op_stx_zpg cpu =
     (let (addr, cpu) = addr_zpg cpu
      in cpu_write cpu addr (x cpu))"

definition op_stx_zpy :: "'b cpu6502_t \<Rightarrow> 'b cpu6502_t" where
  "op_stx_zpy cpu =
     (let (addr, cpu) = addr_zpy cpu
      in cpu_write cpu addr (x cpu))"

definition op_stx_abs :: "'b cpu6502_t \<Rightarrow> 'b cpu6502_t" where
  "op_stx_abs cpu =
     (let (addr, cpu) = addr_abs cpu
      in cpu_write cpu addr (x cpu))"

definition op_sty_zpg :: "'b cpu6502_t \<Rightarrow> 'b cpu6502_t" where
  "op_sty_zpg cpu =
     (let (addr, cpu) = addr_zpg cpu
      in cpu_write cpu addr (y cpu))"

definition op_sty_zpx :: "'b cpu6502_t \<Rightarrow> 'b cpu6502_t" where
  "op_sty_zpx cpu =
     (let (addr, cpu) = addr_zpx cpu
      in cpu_write cpu addr (y cpu))"

definition op_sty_abs :: "'b cpu6502_t \<Rightarrow> 'b cpu6502_t" where
  "op_sty_abs cpu =
     (let (addr, cpu) = addr_abs cpu
      in cpu_write cpu addr (y cpu))"

definition op_adc_imm :: "'b cpu6502_t \<Rightarrow> 'b cpu6502_t" where
  "op_adc_imm cpu =
     (let (addr, cpu) = addr_imm cpu;
          (val, cpu) = cpu_read cpu addr;
          cpu = do_adc cpu val
      in cpu)"

definition op_adc_zpg :: "'b cpu6502_t \<Rightarrow> 'b cpu6502_t" where
  "op_adc_zpg cpu =
     (let (addr, cpu) = addr_zpg cpu;
          (val, cpu) = cpu_read cpu addr;
          cpu = do_adc cpu val
      in cpu)"

definition op_adc_zpx :: "'b cpu6502_t \<Rightarrow> 'b cpu6502_t" where
  "op_adc_zpx cpu =
     (let (addr, cpu) = addr_zpx cpu;
          (val, cpu) = cpu_read cpu addr;
          cpu = do_adc cpu val
      in cpu)"

definition op_adc_abs :: "'b cpu6502_t \<Rightarrow> 'b cpu6502_t" where
  "op_adc_abs cpu =
     (let (addr, cpu) = addr_abs cpu;
          (val, cpu) = cpu_read cpu addr;
          cpu = do_adc cpu val
      in cpu)"

definition op_adc_abx :: "'b cpu6502_t \<Rightarrow> 'b cpu6502_t" where
  "op_adc_abx cpu =
     (let (addr, cpu) = addr_abx cpu;
          (val, cpu) = cpu_read cpu addr;
          cpu = do_adc cpu val
      in if page_crossed cpu then cpu\<lparr>cycles := cycles cpu + 1\<rparr> else cpu)"

definition op_adc_aby :: "'b cpu6502_t \<Rightarrow> 'b cpu6502_t" where
  "op_adc_aby cpu =
     (let (addr, cpu) = addr_aby cpu;
          (val, cpu) = cpu_read cpu addr;
          cpu = do_adc cpu val
      in if page_crossed cpu then cpu\<lparr>cycles := cycles cpu + 1\<rparr> else cpu)"

definition op_adc_izx :: "'b cpu6502_t \<Rightarrow> 'b cpu6502_t" where
  "op_adc_izx cpu =
     (let (addr, cpu) = addr_izx cpu;
          (val, cpu) = cpu_read cpu addr;
          cpu = do_adc cpu val
      in cpu)"

definition op_adc_izy :: "'b cpu6502_t \<Rightarrow> 'b cpu6502_t" where
  "op_adc_izy cpu =
     (let (addr, cpu) = addr_izy cpu;
          (val, cpu) = cpu_read cpu addr;
          cpu = do_adc cpu val
      in if page_crossed cpu then cpu\<lparr>cycles := cycles cpu + 1\<rparr> else cpu)"

definition op_sbc_imm :: "'b cpu6502_t \<Rightarrow> 'b cpu6502_t" where
  "op_sbc_imm cpu =
     (let (addr, cpu) = addr_imm cpu;
          (val, cpu) = cpu_read cpu addr;
          cpu = do_sbc cpu val
      in cpu)"

definition op_sbc_zpg :: "'b cpu6502_t \<Rightarrow> 'b cpu6502_t" where
  "op_sbc_zpg cpu =
     (let (addr, cpu) = addr_zpg cpu;
          (val, cpu) = cpu_read cpu addr;
          cpu = do_sbc cpu val
      in cpu)"

definition op_sbc_zpx :: "'b cpu6502_t \<Rightarrow> 'b cpu6502_t" where
  "op_sbc_zpx cpu =
     (let (addr, cpu) = addr_zpx cpu;
          (val, cpu) = cpu_read cpu addr;
          cpu = do_sbc cpu val
      in cpu)"

definition op_sbc_abs :: "'b cpu6502_t \<Rightarrow> 'b cpu6502_t" where
  "op_sbc_abs cpu =
     (let (addr, cpu) = addr_abs cpu;
          (val, cpu) = cpu_read cpu addr;
          cpu = do_sbc cpu val
      in cpu)"

definition op_sbc_abx :: "'b cpu6502_t \<Rightarrow> 'b cpu6502_t" where
  "op_sbc_abx cpu =
     (let (addr, cpu) = addr_abx cpu;
          (val, cpu) = cpu_read cpu addr;
          cpu = do_sbc cpu val
      in if page_crossed cpu then cpu\<lparr>cycles := cycles cpu + 1\<rparr> else cpu)"

definition op_sbc_aby :: "'b cpu6502_t \<Rightarrow> 'b cpu6502_t" where
  "op_sbc_aby cpu =
     (let (addr, cpu) = addr_aby cpu;
          (val, cpu) = cpu_read cpu addr;
          cpu = do_sbc cpu val
      in if page_crossed cpu then cpu\<lparr>cycles := cycles cpu + 1\<rparr> else cpu)"

definition op_sbc_izx :: "'b cpu6502_t \<Rightarrow> 'b cpu6502_t" where
  "op_sbc_izx cpu =
     (let (addr, cpu) = addr_izx cpu;
          (val, cpu) = cpu_read cpu addr;
          cpu = do_sbc cpu val
      in cpu)"

definition op_sbc_izy :: "'b cpu6502_t \<Rightarrow> 'b cpu6502_t" where
  "op_sbc_izy cpu =
     (let (addr, cpu) = addr_izy cpu;
          (val, cpu) = cpu_read cpu addr;
          cpu = do_sbc cpu val
      in if page_crossed cpu then cpu\<lparr>cycles := cycles cpu + 1\<rparr> else cpu)"

definition op_cmp_imm :: "'b cpu6502_t \<Rightarrow> 'b cpu6502_t" where
  "op_cmp_imm cpu =
     (let (addr, cpu) = addr_imm cpu;
          (val, cpu) = cpu_read cpu addr;
          cpu = do_cmp cpu (a cpu) val
      in cpu)"

definition op_cmp_zpg :: "'b cpu6502_t \<Rightarrow> 'b cpu6502_t" where
  "op_cmp_zpg cpu =
     (let (addr, cpu) = addr_zpg cpu;
          (val, cpu) = cpu_read cpu addr;
          cpu = do_cmp cpu (a cpu) val
      in cpu)"

definition op_cmp_zpx :: "'b cpu6502_t \<Rightarrow> 'b cpu6502_t" where
  "op_cmp_zpx cpu =
     (let (addr, cpu) = addr_zpx cpu;
          (val, cpu) = cpu_read cpu addr;
          cpu = do_cmp cpu (a cpu) val
      in cpu)"

definition op_cmp_abs :: "'b cpu6502_t \<Rightarrow> 'b cpu6502_t" where
  "op_cmp_abs cpu =
     (let (addr, cpu) = addr_abs cpu;
          (val, cpu) = cpu_read cpu addr;
          cpu = do_cmp cpu (a cpu) val
      in cpu)"

definition op_cmp_abx :: "'b cpu6502_t \<Rightarrow> 'b cpu6502_t" where
  "op_cmp_abx cpu =
     (let (addr, cpu) = addr_abx cpu;
          (val, cpu) = cpu_read cpu addr;
          cpu = do_cmp cpu (a cpu) val
      in if page_crossed cpu then cpu\<lparr>cycles := cycles cpu + 1\<rparr> else cpu)"

definition op_cmp_aby :: "'b cpu6502_t \<Rightarrow> 'b cpu6502_t" where
  "op_cmp_aby cpu =
     (let (addr, cpu) = addr_aby cpu;
          (val, cpu) = cpu_read cpu addr;
          cpu = do_cmp cpu (a cpu) val
      in if page_crossed cpu then cpu\<lparr>cycles := cycles cpu + 1\<rparr> else cpu)"

definition op_cmp_izx :: "'b cpu6502_t \<Rightarrow> 'b cpu6502_t" where
  "op_cmp_izx cpu =
     (let (addr, cpu) = addr_izx cpu;
          (val, cpu) = cpu_read cpu addr;
          cpu = do_cmp cpu (a cpu) val
      in cpu)"

definition op_cmp_izy :: "'b cpu6502_t \<Rightarrow> 'b cpu6502_t" where
  "op_cmp_izy cpu =
     (let (addr, cpu) = addr_izy cpu;
          (val, cpu) = cpu_read cpu addr;
          cpu = do_cmp cpu (a cpu) val
      in if page_crossed cpu then cpu\<lparr>cycles := cycles cpu + 1\<rparr> else cpu)"

definition op_cpx_imm :: "'b cpu6502_t \<Rightarrow> 'b cpu6502_t" where
  "op_cpx_imm cpu =
     (let (addr, cpu) = addr_imm cpu;
          (val, cpu) = cpu_read cpu addr;
          cpu = do_cmp cpu (x cpu) val
      in cpu)"

definition op_cpx_zpg :: "'b cpu6502_t \<Rightarrow> 'b cpu6502_t" where
  "op_cpx_zpg cpu =
     (let (addr, cpu) = addr_zpg cpu;
          (val, cpu) = cpu_read cpu addr;
          cpu = do_cmp cpu (x cpu) val
      in cpu)"

definition op_cpx_abs :: "'b cpu6502_t \<Rightarrow> 'b cpu6502_t" where
  "op_cpx_abs cpu =
     (let (addr, cpu) = addr_abs cpu;
          (val, cpu) = cpu_read cpu addr;
          cpu = do_cmp cpu (x cpu) val
      in cpu)"

definition op_cpy_imm :: "'b cpu6502_t \<Rightarrow> 'b cpu6502_t" where
  "op_cpy_imm cpu =
     (let (addr, cpu) = addr_imm cpu;
          (val, cpu) = cpu_read cpu addr;
          cpu = do_cmp cpu (y cpu) val
      in cpu)"

definition op_cpy_zpg :: "'b cpu6502_t \<Rightarrow> 'b cpu6502_t" where
  "op_cpy_zpg cpu =
     (let (addr, cpu) = addr_zpg cpu;
          (val, cpu) = cpu_read cpu addr;
          cpu = do_cmp cpu (y cpu) val
      in cpu)"

definition op_cpy_abs :: "'b cpu6502_t \<Rightarrow> 'b cpu6502_t" where
  "op_cpy_abs cpu =
     (let (addr, cpu) = addr_abs cpu;
          (val, cpu) = cpu_read cpu addr;
          cpu = do_cmp cpu (y cpu) val
      in cpu)"

definition op_and_imm :: "'b cpu6502_t \<Rightarrow> 'b cpu6502_t" where
  "op_and_imm cpu =
     (let (addr, cpu) = addr_imm cpu;
          (val, cpu) = cpu_read cpu addr;
          cpu = do_and cpu val
      in cpu)"

definition op_and_zpg :: "'b cpu6502_t \<Rightarrow> 'b cpu6502_t" where
  "op_and_zpg cpu =
     (let (addr, cpu) = addr_zpg cpu;
          (val, cpu) = cpu_read cpu addr;
          cpu = do_and cpu val
      in cpu)"

definition op_and_zpx :: "'b cpu6502_t \<Rightarrow> 'b cpu6502_t" where
  "op_and_zpx cpu =
     (let (addr, cpu) = addr_zpx cpu;
          (val, cpu) = cpu_read cpu addr;
          cpu = do_and cpu val
      in cpu)"

definition op_and_abs :: "'b cpu6502_t \<Rightarrow> 'b cpu6502_t" where
  "op_and_abs cpu =
     (let (addr, cpu) = addr_abs cpu;
          (val, cpu) = cpu_read cpu addr;
          cpu = do_and cpu val
      in cpu)"

definition op_and_abx :: "'b cpu6502_t \<Rightarrow> 'b cpu6502_t" where
  "op_and_abx cpu =
     (let (addr, cpu) = addr_abx cpu;
          (val, cpu) = cpu_read cpu addr;
          cpu = do_and cpu val
      in if page_crossed cpu then cpu\<lparr>cycles := cycles cpu + 1\<rparr> else cpu)"

definition op_and_aby :: "'b cpu6502_t \<Rightarrow> 'b cpu6502_t" where
  "op_and_aby cpu =
     (let (addr, cpu) = addr_aby cpu;
          (val, cpu) = cpu_read cpu addr;
          cpu = do_and cpu val
      in if page_crossed cpu then cpu\<lparr>cycles := cycles cpu + 1\<rparr> else cpu)"

definition op_and_izx :: "'b cpu6502_t \<Rightarrow> 'b cpu6502_t" where
  "op_and_izx cpu =
     (let (addr, cpu) = addr_izx cpu;
          (val, cpu) = cpu_read cpu addr;
          cpu = do_and cpu val
      in cpu)"

definition op_and_izy :: "'b cpu6502_t \<Rightarrow> 'b cpu6502_t" where
  "op_and_izy cpu =
     (let (addr, cpu) = addr_izy cpu;
          (val, cpu) = cpu_read cpu addr;
          cpu = do_and cpu val
      in if page_crossed cpu then cpu\<lparr>cycles := cycles cpu + 1\<rparr> else cpu)"

definition op_eor_imm :: "'b cpu6502_t \<Rightarrow> 'b cpu6502_t" where
  "op_eor_imm cpu =
     (let (addr, cpu) = addr_imm cpu;
          (val, cpu) = cpu_read cpu addr;
          cpu = do_eor cpu val
      in cpu)"

definition op_eor_zpg :: "'b cpu6502_t \<Rightarrow> 'b cpu6502_t" where
  "op_eor_zpg cpu =
     (let (addr, cpu) = addr_zpg cpu;
          (val, cpu) = cpu_read cpu addr;
          cpu = do_eor cpu val
      in cpu)"

definition op_eor_zpx :: "'b cpu6502_t \<Rightarrow> 'b cpu6502_t" where
  "op_eor_zpx cpu =
     (let (addr, cpu) = addr_zpx cpu;
          (val, cpu) = cpu_read cpu addr;
          cpu = do_eor cpu val
      in cpu)"

definition op_eor_abs :: "'b cpu6502_t \<Rightarrow> 'b cpu6502_t" where
  "op_eor_abs cpu =
     (let (addr, cpu) = addr_abs cpu;
          (val, cpu) = cpu_read cpu addr;
          cpu = do_eor cpu val
      in cpu)"

definition op_eor_abx :: "'b cpu6502_t \<Rightarrow> 'b cpu6502_t" where
  "op_eor_abx cpu =
     (let (addr, cpu) = addr_abx cpu;
          (val, cpu) = cpu_read cpu addr;
          cpu = do_eor cpu val
      in if page_crossed cpu then cpu\<lparr>cycles := cycles cpu + 1\<rparr> else cpu)"

definition op_eor_aby :: "'b cpu6502_t \<Rightarrow> 'b cpu6502_t" where
  "op_eor_aby cpu =
     (let (addr, cpu) = addr_aby cpu;
          (val, cpu) = cpu_read cpu addr;
          cpu = do_eor cpu val
      in if page_crossed cpu then cpu\<lparr>cycles := cycles cpu + 1\<rparr> else cpu)"

definition op_eor_izx :: "'b cpu6502_t \<Rightarrow> 'b cpu6502_t" where
  "op_eor_izx cpu =
     (let (addr, cpu) = addr_izx cpu;
          (val, cpu) = cpu_read cpu addr;
          cpu = do_eor cpu val
      in cpu)"

definition op_eor_izy :: "'b cpu6502_t \<Rightarrow> 'b cpu6502_t" where
  "op_eor_izy cpu =
     (let (addr, cpu) = addr_izy cpu;
          (val, cpu) = cpu_read cpu addr;
          cpu = do_eor cpu val
      in if page_crossed cpu then cpu\<lparr>cycles := cycles cpu + 1\<rparr> else cpu)"

definition op_ora_imm :: "'b cpu6502_t \<Rightarrow> 'b cpu6502_t" where
  "op_ora_imm cpu =
     (let (addr, cpu) = addr_imm cpu;
          (val, cpu) = cpu_read cpu addr;
          cpu = do_ora cpu val
      in cpu)"

definition op_ora_zpg :: "'b cpu6502_t \<Rightarrow> 'b cpu6502_t" where
  "op_ora_zpg cpu =
     (let (addr, cpu) = addr_zpg cpu;
          (val, cpu) = cpu_read cpu addr;
          cpu = do_ora cpu val
      in cpu)"

definition op_ora_zpx :: "'b cpu6502_t \<Rightarrow> 'b cpu6502_t" where
  "op_ora_zpx cpu =
     (let (addr, cpu) = addr_zpx cpu;
          (val, cpu) = cpu_read cpu addr;
          cpu = do_ora cpu val
      in cpu)"

definition op_ora_abs :: "'b cpu6502_t \<Rightarrow> 'b cpu6502_t" where
  "op_ora_abs cpu =
     (let (addr, cpu) = addr_abs cpu;
          (val, cpu) = cpu_read cpu addr;
          cpu = do_ora cpu val
      in cpu)"

definition op_ora_abx :: "'b cpu6502_t \<Rightarrow> 'b cpu6502_t" where
  "op_ora_abx cpu =
     (let (addr, cpu) = addr_abx cpu;
          (val, cpu) = cpu_read cpu addr;
          cpu = do_ora cpu val
      in if page_crossed cpu then cpu\<lparr>cycles := cycles cpu + 1\<rparr> else cpu)"

definition op_ora_aby :: "'b cpu6502_t \<Rightarrow> 'b cpu6502_t" where
  "op_ora_aby cpu =
     (let (addr, cpu) = addr_aby cpu;
          (val, cpu) = cpu_read cpu addr;
          cpu = do_ora cpu val
      in if page_crossed cpu then cpu\<lparr>cycles := cycles cpu + 1\<rparr> else cpu)"

definition op_ora_izx :: "'b cpu6502_t \<Rightarrow> 'b cpu6502_t" where
  "op_ora_izx cpu =
     (let (addr, cpu) = addr_izx cpu;
          (val, cpu) = cpu_read cpu addr;
          cpu = do_ora cpu val
      in cpu)"

definition op_ora_izy :: "'b cpu6502_t \<Rightarrow> 'b cpu6502_t" where
  "op_ora_izy cpu =
     (let (addr, cpu) = addr_izy cpu;
          (val, cpu) = cpu_read cpu addr;
          cpu = do_ora cpu val
      in if page_crossed cpu then cpu\<lparr>cycles := cycles cpu + 1\<rparr> else cpu)"

definition op_bit_zpg :: "'b cpu6502_t \<Rightarrow> 'b cpu6502_t" where
  "op_bit_zpg cpu =
     (let (addr, cpu) = addr_zpg cpu;
          (val, cpu) = cpu_read cpu addr;
          cpu = cpu_set_flag cpu CPU_FLAG_Z (a cpu AND val = 0);
          cpu = cpu_set_flag cpu CPU_FLAG_N (val AND 0x80 \<noteq> 0)
      in cpu_set_flag cpu CPU_FLAG_V (val AND 0x40 \<noteq> 0))"

definition op_bit_abs :: "'b cpu6502_t \<Rightarrow> 'b cpu6502_t" where
  "op_bit_abs cpu =
     (let (addr, cpu) = addr_abs cpu;
          (val, cpu) = cpu_read cpu addr;
          cpu = cpu_set_flag cpu CPU_FLAG_Z (a cpu AND val = 0);
          cpu = cpu_set_flag cpu CPU_FLAG_N (val AND 0x80 \<noteq> 0)
      in cpu_set_flag cpu CPU_FLAG_V (val AND 0x40 \<noteq> 0))"

definition op_asl_acc :: "'b cpu6502_t \<Rightarrow> 'b cpu6502_t" where
  "op_asl_acc cpu =
     (let (val, cpu) = do_asl cpu (a cpu)
      in cpu\<lparr>a := val\<rparr>)"

definition op_asl_zpg :: "'b cpu6502_t \<Rightarrow> 'b cpu6502_t" where
  "op_asl_zpg cpu =
     (let (addr, cpu) = addr_zpg cpu;
          (val, cpu) = cpu_read cpu addr;
          (val, cpu) = do_asl cpu val
      in cpu_write cpu addr val)"

definition op_asl_zpx :: "'b cpu6502_t \<Rightarrow> 'b cpu6502_t" where
  "op_asl_zpx cpu =
     (let (addr, cpu) = addr_zpx cpu;
          (val, cpu) = cpu_read cpu addr;
          (val, cpu) = do_asl cpu val
      in cpu_write cpu addr val)"

definition op_asl_abs :: "'b cpu6502_t \<Rightarrow> 'b cpu6502_t" where
  "op_asl_abs cpu =
     (let (addr, cpu) = addr_abs cpu;
          (val, cpu) = cpu_read cpu addr;
          (val, cpu) = do_asl cpu val
      in cpu_write cpu addr val)"

definition op_asl_abx :: "'b cpu6502_t \<Rightarrow> 'b cpu6502_t" where
  "op_asl_abx cpu =
     (let (addr, cpu) = addr_abx cpu;
          (val, cpu) = cpu_read cpu addr;
          (val, cpu) = do_asl cpu val
      in cpu_write cpu addr val)"

definition op_lsr_acc :: "'b cpu6502_t \<Rightarrow> 'b cpu6502_t" where
  "op_lsr_acc cpu =
     (let (val, cpu) = do_lsr cpu (a cpu)
      in cpu\<lparr>a := val\<rparr>)"

definition op_lsr_zpg :: "'b cpu6502_t \<Rightarrow> 'b cpu6502_t" where
  "op_lsr_zpg cpu =
     (let (addr, cpu) = addr_zpg cpu;
          (val, cpu) = cpu_read cpu addr;
          (val, cpu) = do_lsr cpu val
      in cpu_write cpu addr val)"

definition op_lsr_zpx :: "'b cpu6502_t \<Rightarrow> 'b cpu6502_t" where
  "op_lsr_zpx cpu =
     (let (addr, cpu) = addr_zpx cpu;
          (val, cpu) = cpu_read cpu addr;
          (val, cpu) = do_lsr cpu val
      in cpu_write cpu addr val)"

definition op_lsr_abs :: "'b cpu6502_t \<Rightarrow> 'b cpu6502_t" where
  "op_lsr_abs cpu =
     (let (addr, cpu) = addr_abs cpu;
          (val, cpu) = cpu_read cpu addr;
          (val, cpu) = do_lsr cpu val
      in cpu_write cpu addr val)"

definition op_lsr_abx :: "'b cpu6502_t \<Rightarrow> 'b cpu6502_t" where
  "op_lsr_abx cpu =
     (let (addr, cpu) = addr_abx cpu;
          (val, cpu) = cpu_read cpu addr;
          (val, cpu) = do_lsr cpu val
      in cpu_write cpu addr val)"

definition op_rol_acc :: "'b cpu6502_t \<Rightarrow> 'b cpu6502_t" where
  "op_rol_acc cpu =
     (let (val, cpu) = do_rol cpu (a cpu)
      in cpu\<lparr>a := val\<rparr>)"

definition op_rol_zpg :: "'b cpu6502_t \<Rightarrow> 'b cpu6502_t" where
  "op_rol_zpg cpu =
     (let (addr, cpu) = addr_zpg cpu;
          (val, cpu) = cpu_read cpu addr;
          (val, cpu) = do_rol cpu val
      in cpu_write cpu addr val)"

definition op_rol_zpx :: "'b cpu6502_t \<Rightarrow> 'b cpu6502_t" where
  "op_rol_zpx cpu =
     (let (addr, cpu) = addr_zpx cpu;
          (val, cpu) = cpu_read cpu addr;
          (val, cpu) = do_rol cpu val
      in cpu_write cpu addr val)"

definition op_rol_abs :: "'b cpu6502_t \<Rightarrow> 'b cpu6502_t" where
  "op_rol_abs cpu =
     (let (addr, cpu) = addr_abs cpu;
          (val, cpu) = cpu_read cpu addr;
          (val, cpu) = do_rol cpu val
      in cpu_write cpu addr val)"

definition op_rol_abx :: "'b cpu6502_t \<Rightarrow> 'b cpu6502_t" where
  "op_rol_abx cpu =
     (let (addr, cpu) = addr_abx cpu;
          (val, cpu) = cpu_read cpu addr;
          (val, cpu) = do_rol cpu val
      in cpu_write cpu addr val)"

definition op_ror_acc :: "'b cpu6502_t \<Rightarrow> 'b cpu6502_t" where
  "op_ror_acc cpu =
     (let (val, cpu) = do_ror cpu (a cpu)
      in cpu\<lparr>a := val\<rparr>)"

definition op_ror_zpg :: "'b cpu6502_t \<Rightarrow> 'b cpu6502_t" where
  "op_ror_zpg cpu =
     (let (addr, cpu) = addr_zpg cpu;
          (val, cpu) = cpu_read cpu addr;
          (val, cpu) = do_ror cpu val
      in cpu_write cpu addr val)"

definition op_ror_zpx :: "'b cpu6502_t \<Rightarrow> 'b cpu6502_t" where
  "op_ror_zpx cpu =
     (let (addr, cpu) = addr_zpx cpu;
          (val, cpu) = cpu_read cpu addr;
          (val, cpu) = do_ror cpu val
      in cpu_write cpu addr val)"

definition op_ror_abs :: "'b cpu6502_t \<Rightarrow> 'b cpu6502_t" where
  "op_ror_abs cpu =
     (let (addr, cpu) = addr_abs cpu;
          (val, cpu) = cpu_read cpu addr;
          (val, cpu) = do_ror cpu val
      in cpu_write cpu addr val)"

definition op_ror_abx :: "'b cpu6502_t \<Rightarrow> 'b cpu6502_t" where
  "op_ror_abx cpu =
     (let (addr, cpu) = addr_abx cpu;
          (val, cpu) = cpu_read cpu addr;
          (val, cpu) = do_ror cpu val
      in cpu_write cpu addr val)"

definition op_inc_zpg :: "'b cpu6502_t \<Rightarrow> 'b cpu6502_t" where
  "op_inc_zpg cpu =
     (let (addr, cpu) = addr_zpg cpu;
          (val, cpu) = cpu_read cpu addr;
          val = val + 1;
          cpu = cpu_write cpu addr val
      in cpu_set_nz cpu val)"

definition op_inc_zpx :: "'b cpu6502_t \<Rightarrow> 'b cpu6502_t" where
  "op_inc_zpx cpu =
     (let (addr, cpu) = addr_zpx cpu;
          (val, cpu) = cpu_read cpu addr;
          val = val + 1;
          cpu = cpu_write cpu addr val
      in cpu_set_nz cpu val)"

definition op_inc_abs :: "'b cpu6502_t \<Rightarrow> 'b cpu6502_t" where
  "op_inc_abs cpu =
     (let (addr, cpu) = addr_abs cpu;
          (val, cpu) = cpu_read cpu addr;
          val = val + 1;
          cpu = cpu_write cpu addr val
      in cpu_set_nz cpu val)"

definition op_inc_abx :: "'b cpu6502_t \<Rightarrow> 'b cpu6502_t" where
  "op_inc_abx cpu =
     (let (addr, cpu) = addr_abx cpu;
          (val, cpu) = cpu_read cpu addr;
          val = val + 1;
          cpu = cpu_write cpu addr val
      in cpu_set_nz cpu val)"

definition op_dec_zpg :: "'b cpu6502_t \<Rightarrow> 'b cpu6502_t" where
  "op_dec_zpg cpu =
     (let (addr, cpu) = addr_zpg cpu;
          (val, cpu) = cpu_read cpu addr;
          val = val - 1;
          cpu = cpu_write cpu addr val
      in cpu_set_nz cpu val)"

definition op_dec_zpx :: "'b cpu6502_t \<Rightarrow> 'b cpu6502_t" where
  "op_dec_zpx cpu =
     (let (addr, cpu) = addr_zpx cpu;
          (val, cpu) = cpu_read cpu addr;
          val = val - 1;
          cpu = cpu_write cpu addr val
      in cpu_set_nz cpu val)"

definition op_dec_abs :: "'b cpu6502_t \<Rightarrow> 'b cpu6502_t" where
  "op_dec_abs cpu =
     (let (addr, cpu) = addr_abs cpu;
          (val, cpu) = cpu_read cpu addr;
          val = val - 1;
          cpu = cpu_write cpu addr val
      in cpu_set_nz cpu val)"

definition op_dec_abx :: "'b cpu6502_t \<Rightarrow> 'b cpu6502_t" where
  "op_dec_abx cpu =
     (let (addr, cpu) = addr_abx cpu;
          (val, cpu) = cpu_read cpu addr;
          val = val - 1;
          cpu = cpu_write cpu addr val
      in cpu_set_nz cpu val)"

definition op_inx :: "'b cpu6502_t \<Rightarrow> 'b cpu6502_t" where
  "op_inx cpu =
     (let cpu = cpu\<lparr>x := x cpu + 1\<rparr>
      in cpu_set_nz cpu (x cpu))"

definition op_iny :: "'b cpu6502_t \<Rightarrow> 'b cpu6502_t" where
  "op_iny cpu =
     (let cpu = cpu\<lparr>y := y cpu + 1\<rparr>
      in cpu_set_nz cpu (y cpu))"

definition op_dex :: "'b cpu6502_t \<Rightarrow> 'b cpu6502_t" where
  "op_dex cpu =
     (let cpu = cpu\<lparr>x := x cpu - 1\<rparr>
      in cpu_set_nz cpu (x cpu))"

definition op_dey :: "'b cpu6502_t \<Rightarrow> 'b cpu6502_t" where
  "op_dey cpu =
     (let cpu = cpu\<lparr>y := y cpu - 1\<rparr>
      in cpu_set_nz cpu (y cpu))"

definition op_bpl :: "'b cpu6502_t \<Rightarrow> 'b cpu6502_t" where
  "op_bpl cpu =
     (let (offset, cpu) = cpu_read (cpu\<lparr>pc := pc cpu + 1\<rparr>) (pc cpu)
      in if \<not> cpu_get_flag cpu CPU_FLAG_N then
           let old_pc = pc cpu;
               cpu = cpu\<lparr>pc := pc cpu + scast offset\<rparr>;
               cpu = cpu\<lparr>cycles := cycles cpu + 1\<rparr>
           in if old_pc AND 0xFF00 \<noteq> pc cpu AND 0xFF00
              then cpu\<lparr>cycles := cycles cpu + 1\<rparr> else cpu
         else cpu)"

definition op_bmi :: "'b cpu6502_t \<Rightarrow> 'b cpu6502_t" where
  "op_bmi cpu =
     (let (offset, cpu) = cpu_read (cpu\<lparr>pc := pc cpu + 1\<rparr>) (pc cpu)
      in if cpu_get_flag cpu CPU_FLAG_N then
           let old_pc = pc cpu;
               cpu = cpu\<lparr>pc := pc cpu + scast offset\<rparr>;
               cpu = cpu\<lparr>cycles := cycles cpu + 1\<rparr>
           in if old_pc AND 0xFF00 \<noteq> pc cpu AND 0xFF00
              then cpu\<lparr>cycles := cycles cpu + 1\<rparr> else cpu
         else cpu)"

definition op_bvc :: "'b cpu6502_t \<Rightarrow> 'b cpu6502_t" where
  "op_bvc cpu =
     (let (offset, cpu) = cpu_read (cpu\<lparr>pc := pc cpu + 1\<rparr>) (pc cpu)
      in if \<not> cpu_get_flag cpu CPU_FLAG_V then
           let old_pc = pc cpu;
               cpu = cpu\<lparr>pc := pc cpu + scast offset\<rparr>;
               cpu = cpu\<lparr>cycles := cycles cpu + 1\<rparr>
           in if old_pc AND 0xFF00 \<noteq> pc cpu AND 0xFF00
              then cpu\<lparr>cycles := cycles cpu + 1\<rparr> else cpu
         else cpu)"

definition op_bvs :: "'b cpu6502_t \<Rightarrow> 'b cpu6502_t" where
  "op_bvs cpu =
     (let (offset, cpu) = cpu_read (cpu\<lparr>pc := pc cpu + 1\<rparr>) (pc cpu)
      in if cpu_get_flag cpu CPU_FLAG_V then
           let old_pc = pc cpu;
               cpu = cpu\<lparr>pc := pc cpu + scast offset\<rparr>;
               cpu = cpu\<lparr>cycles := cycles cpu + 1\<rparr>
           in if old_pc AND 0xFF00 \<noteq> pc cpu AND 0xFF00
              then cpu\<lparr>cycles := cycles cpu + 1\<rparr> else cpu
         else cpu)"

definition op_bcc :: "'b cpu6502_t \<Rightarrow> 'b cpu6502_t" where
  "op_bcc cpu =
     (let (offset, cpu) = cpu_read (cpu\<lparr>pc := pc cpu + 1\<rparr>) (pc cpu)
      in if \<not> cpu_get_flag cpu CPU_FLAG_C then
           let old_pc = pc cpu;
               cpu = cpu\<lparr>pc := pc cpu + scast offset\<rparr>;
               cpu = cpu\<lparr>cycles := cycles cpu + 1\<rparr>
           in if old_pc AND 0xFF00 \<noteq> pc cpu AND 0xFF00
              then cpu\<lparr>cycles := cycles cpu + 1\<rparr> else cpu
         else cpu)"

definition op_bcs :: "'b cpu6502_t \<Rightarrow> 'b cpu6502_t" where
  "op_bcs cpu =
     (let (offset, cpu) = cpu_read (cpu\<lparr>pc := pc cpu + 1\<rparr>) (pc cpu)
      in if cpu_get_flag cpu CPU_FLAG_C then
           let old_pc = pc cpu;
               cpu = cpu\<lparr>pc := pc cpu + scast offset\<rparr>;
               cpu = cpu\<lparr>cycles := cycles cpu + 1\<rparr>
           in if old_pc AND 0xFF00 \<noteq> pc cpu AND 0xFF00
              then cpu\<lparr>cycles := cycles cpu + 1\<rparr> else cpu
         else cpu)"

definition op_bne :: "'b cpu6502_t \<Rightarrow> 'b cpu6502_t" where
  "op_bne cpu =
     (let (offset, cpu) = cpu_read (cpu\<lparr>pc := pc cpu + 1\<rparr>) (pc cpu)
      in if \<not> cpu_get_flag cpu CPU_FLAG_Z then
           let old_pc = pc cpu;
               cpu = cpu\<lparr>pc := pc cpu + scast offset\<rparr>;
               cpu = cpu\<lparr>cycles := cycles cpu + 1\<rparr>
           in if old_pc AND 0xFF00 \<noteq> pc cpu AND 0xFF00
              then cpu\<lparr>cycles := cycles cpu + 1\<rparr> else cpu
         else cpu)"

definition op_beq :: "'b cpu6502_t \<Rightarrow> 'b cpu6502_t" where
  "op_beq cpu =
     (let (offset, cpu) = cpu_read (cpu\<lparr>pc := pc cpu + 1\<rparr>) (pc cpu)
      in if cpu_get_flag cpu CPU_FLAG_Z then
           let old_pc = pc cpu;
               cpu = cpu\<lparr>pc := pc cpu + scast offset\<rparr>;
               cpu = cpu\<lparr>cycles := cycles cpu + 1\<rparr>
           in if old_pc AND 0xFF00 \<noteq> pc cpu AND 0xFF00
              then cpu\<lparr>cycles := cycles cpu + 1\<rparr> else cpu
         else cpu)"

definition op_jmp_abs :: "'b cpu6502_t \<Rightarrow> 'b cpu6502_t" where
  "op_jmp_abs cpu =
     (let (addr, cpu) = addr_abs cpu
      in cpu\<lparr>pc := addr\<rparr>)"

definition op_jmp_ind :: "'b cpu6502_t \<Rightarrow> 'b cpu6502_t" where
  "op_jmp_ind cpu =
     (let (ptr, cpu) = addr_abs cpu;
          (lo, cpu) = cpu_read cpu ptr;
          (hi, cpu) = cpu_read cpu ((ptr AND 0xFF00) OR ((ptr + 1) AND 0x00FF))
      in cpu\<lparr>pc := push_bit 8 (ucast hi) OR ucast lo\<rparr>)"

definition op_jsr :: "'b cpu6502_t \<Rightarrow> 'b cpu6502_t" where
  "op_jsr cpu =
     (let (addr, cpu) = addr_abs cpu;
          cpu = cpu_push16 cpu (pc cpu - 1)
      in cpu\<lparr>pc := addr\<rparr>)"

definition op_rts :: "'b cpu6502_t \<Rightarrow> 'b cpu6502_t" where
  "op_rts cpu =
     (let (val, cpu) = cpu_pull16 cpu
      in cpu\<lparr>pc := val + 1\<rparr>)"

definition op_brk :: "'b cpu6502_t \<Rightarrow> 'b cpu6502_t" where
  "op_brk cpu =
     (let cpu = cpu\<lparr>pc := pc cpu + 1\<rparr>;
          cpu = cpu_push16 cpu (pc cpu);
          cpu = cpu_push cpu (status cpu OR CPU_FLAG_B OR CPU_FLAG_U);
          cpu = cpu_set_flag cpu CPU_FLAG_I True;
          (lo, cpu) = cpu_read cpu 0xFFFE;
          (hi, cpu) = cpu_read cpu 0xFFFF
      in cpu\<lparr>pc := ucast lo OR push_bit 8 (ucast hi)\<rparr>)"

definition op_rti :: "'b cpu6502_t \<Rightarrow> 'b cpu6502_t" where
  "op_rti cpu =
     (let (val, cpu) = cpu_pull cpu;
          cpu = cpu\<lparr>status := val\<rparr>;
          cpu = cpu\<lparr>status := status cpu OR CPU_FLAG_U\<rparr>;
          cpu = cpu\<lparr>status := status cpu AND NOT CPU_FLAG_B\<rparr>;
          (addr, cpu) = cpu_pull16 cpu
      in cpu\<lparr>pc := addr\<rparr>)"

definition op_pha :: "'b cpu6502_t \<Rightarrow> 'b cpu6502_t" where
  "op_pha cpu =
     (cpu_push cpu (a cpu))"

definition op_pla :: "'b cpu6502_t \<Rightarrow> 'b cpu6502_t" where
  "op_pla cpu =
     (let (val, cpu) = cpu_pull cpu;
          cpu = cpu\<lparr>a := val\<rparr>
      in cpu_set_nz cpu (a cpu))"

definition op_php :: "'b cpu6502_t \<Rightarrow> 'b cpu6502_t" where
  "op_php cpu =
     (cpu_push cpu (status cpu OR CPU_FLAG_B OR CPU_FLAG_U))"

definition op_plp :: "'b cpu6502_t \<Rightarrow> 'b cpu6502_t" where
  "op_plp cpu =
     (let (val, cpu) = cpu_pull cpu;
          cpu = cpu\<lparr>status := val\<rparr>;
          cpu = cpu\<lparr>status := status cpu OR CPU_FLAG_U\<rparr>
      in cpu\<lparr>status := status cpu AND NOT CPU_FLAG_B\<rparr>)"

definition op_tax :: "'b cpu6502_t \<Rightarrow> 'b cpu6502_t" where
  "op_tax cpu =
     (let cpu = cpu\<lparr>x := a cpu\<rparr>
      in cpu_set_nz cpu (x cpu))"

definition op_tay :: "'b cpu6502_t \<Rightarrow> 'b cpu6502_t" where
  "op_tay cpu =
     (let cpu = cpu\<lparr>y := a cpu\<rparr>
      in cpu_set_nz cpu (y cpu))"

definition op_txa :: "'b cpu6502_t \<Rightarrow> 'b cpu6502_t" where
  "op_txa cpu =
     (let cpu = cpu\<lparr>a := x cpu\<rparr>
      in cpu_set_nz cpu (a cpu))"

definition op_tya :: "'b cpu6502_t \<Rightarrow> 'b cpu6502_t" where
  "op_tya cpu =
     (let cpu = cpu\<lparr>a := y cpu\<rparr>
      in cpu_set_nz cpu (a cpu))"

definition op_tsx :: "'b cpu6502_t \<Rightarrow> 'b cpu6502_t" where
  "op_tsx cpu =
     (let cpu = cpu\<lparr>x := sp cpu\<rparr>
      in cpu_set_nz cpu (x cpu))"

definition op_txs :: "'b cpu6502_t \<Rightarrow> 'b cpu6502_t" where
  "op_txs cpu =
     (cpu\<lparr>sp := x cpu\<rparr>)"

definition op_clc :: "'b cpu6502_t \<Rightarrow> 'b cpu6502_t" where
  "op_clc cpu =
     (cpu_set_flag cpu CPU_FLAG_C False)"

definition op_sec :: "'b cpu6502_t \<Rightarrow> 'b cpu6502_t" where
  "op_sec cpu =
     (cpu_set_flag cpu CPU_FLAG_C True)"

definition op_cli :: "'b cpu6502_t \<Rightarrow> 'b cpu6502_t" where
  "op_cli cpu =
     (cpu_set_flag cpu CPU_FLAG_I False)"

definition op_sei :: "'b cpu6502_t \<Rightarrow> 'b cpu6502_t" where
  "op_sei cpu =
     (cpu_set_flag cpu CPU_FLAG_I True)"

definition op_cld :: "'b cpu6502_t \<Rightarrow> 'b cpu6502_t" where
  "op_cld cpu =
     (cpu_set_flag cpu CPU_FLAG_D False)"

definition op_sed :: "'b cpu6502_t \<Rightarrow> 'b cpu6502_t" where
  "op_sed cpu =
     (cpu_set_flag cpu CPU_FLAG_D True)"

definition op_clv :: "'b cpu6502_t \<Rightarrow> 'b cpu6502_t" where
  "op_clv cpu =
     (cpu_set_flag cpu CPU_FLAG_V False)"

definition op_nop :: "'b cpu6502_t \<Rightarrow> 'b cpu6502_t" where
  "op_nop cpu =
     cpu"

section \<open>Dispatch tables (opcodes.c, part 4)\<close>

definition opcode_table :: "('b cpu6502_t \<Rightarrow> 'b cpu6502_t) list" where
  "opcode_table = [
    op_brk, op_ora_izx, op_ill, op_ill, op_ill, op_ora_zpg, op_asl_zpg, op_ill, op_php, op_ora_imm, op_asl_acc, op_ill, op_ill, op_ora_abs, op_asl_abs, op_ill,
    op_bpl, op_ora_izy, op_ill, op_ill, op_ill, op_ora_zpx, op_asl_zpx, op_ill, op_clc, op_ora_aby, op_ill, op_ill, op_ill, op_ora_abx, op_asl_abx, op_ill,
    op_jsr, op_and_izx, op_ill, op_ill, op_bit_zpg, op_and_zpg, op_rol_zpg, op_ill, op_plp, op_and_imm, op_rol_acc, op_ill, op_bit_abs, op_and_abs, op_rol_abs, op_ill,
    op_bmi, op_and_izy, op_ill, op_ill, op_ill, op_and_zpx, op_rol_zpx, op_ill, op_sec, op_and_aby, op_ill, op_ill, op_ill, op_and_abx, op_rol_abx, op_ill,
    op_rti, op_eor_izx, op_ill, op_ill, op_ill, op_eor_zpg, op_lsr_zpg, op_ill, op_pha, op_eor_imm, op_lsr_acc, op_ill, op_jmp_abs, op_eor_abs, op_lsr_abs, op_ill,
    op_bvc, op_eor_izy, op_ill, op_ill, op_ill, op_eor_zpx, op_lsr_zpx, op_ill, op_cli, op_eor_aby, op_ill, op_ill, op_ill, op_eor_abx, op_lsr_abx, op_ill,
    op_rts, op_adc_izx, op_ill, op_ill, op_ill, op_adc_zpg, op_ror_zpg, op_ill, op_pla, op_adc_imm, op_ror_acc, op_ill, op_jmp_ind, op_adc_abs, op_ror_abs, op_ill,
    op_bvs, op_adc_izy, op_ill, op_ill, op_ill, op_adc_zpx, op_ror_zpx, op_ill, op_sei, op_adc_aby, op_ill, op_ill, op_ill, op_adc_abx, op_ror_abx, op_ill,
    op_ill, op_sta_izx, op_ill, op_ill, op_sty_zpg, op_sta_zpg, op_stx_zpg, op_ill, op_dey, op_ill, op_txa, op_ill, op_sty_abs, op_sta_abs, op_stx_abs, op_ill,
    op_bcc, op_sta_izy, op_ill, op_ill, op_sty_zpx, op_sta_zpx, op_stx_zpy, op_ill, op_tya, op_sta_aby, op_txs, op_ill, op_ill, op_sta_abx, op_ill, op_ill,
    op_ldy_imm, op_lda_izx, op_ldx_imm, op_ill, op_ldy_zpg, op_lda_zpg, op_ldx_zpg, op_ill, op_tay, op_lda_imm, op_tax, op_ill, op_ldy_abs, op_lda_abs, op_ldx_abs, op_ill,
    op_bcs, op_lda_izy, op_ill, op_ill, op_ldy_zpx, op_lda_zpx, op_ldx_zpy, op_ill, op_clv, op_lda_aby, op_tsx, op_ill, op_ldy_abx, op_lda_abx, op_ldx_aby, op_ill,
    op_cpy_imm, op_cmp_izx, op_ill, op_ill, op_cpy_zpg, op_cmp_zpg, op_dec_zpg, op_ill, op_iny, op_cmp_imm, op_dex, op_ill, op_cpy_abs, op_cmp_abs, op_dec_abs, op_ill,
    op_bne, op_cmp_izy, op_ill, op_ill, op_ill, op_cmp_zpx, op_dec_zpx, op_ill, op_cld, op_cmp_aby, op_ill, op_ill, op_ill, op_cmp_abx, op_dec_abx, op_ill,
    op_cpx_imm, op_sbc_izx, op_ill, op_ill, op_cpx_zpg, op_sbc_zpg, op_inc_zpg, op_ill, op_inx, op_sbc_imm, op_nop, op_ill, op_cpx_abs, op_sbc_abs, op_inc_abs, op_ill,
    op_beq, op_sbc_izy, op_ill, op_ill, op_ill, op_sbc_zpx, op_inc_zpx, op_ill, op_sed, op_sbc_aby, op_ill, op_ill, op_ill, op_sbc_abx, op_inc_abx, op_ill]"

definition opcode_cycles :: "u8 list" where
  "opcode_cycles = [
    7, 6, 0, 0, 0, 3, 5, 0, 3, 2, 2, 0, 0, 4, 6, 0,
    2, 5, 0, 0, 0, 4, 6, 0, 2, 4, 0, 0, 0, 4, 7, 0,
    6, 6, 0, 0, 3, 3, 5, 0, 4, 2, 2, 0, 4, 4, 6, 0,
    2, 5, 0, 0, 0, 4, 6, 0, 2, 4, 0, 0, 0, 4, 7, 0,
    6, 6, 0, 0, 0, 3, 5, 0, 3, 2, 2, 0, 3, 4, 6, 0,
    2, 5, 0, 0, 0, 4, 6, 0, 2, 4, 0, 0, 0, 4, 7, 0,
    6, 6, 0, 0, 0, 3, 5, 0, 4, 2, 2, 0, 5, 4, 6, 0,
    2, 5, 0, 0, 0, 4, 6, 0, 2, 4, 0, 0, 0, 4, 7, 0,
    0, 6, 0, 0, 3, 3, 3, 0, 2, 0, 2, 0, 4, 4, 4, 0,
    2, 6, 0, 0, 4, 4, 4, 0, 2, 5, 2, 0, 0, 5, 0, 0,
    2, 6, 2, 0, 3, 3, 3, 0, 2, 2, 2, 0, 4, 4, 4, 0,
    2, 5, 0, 0, 4, 4, 4, 0, 2, 4, 2, 0, 4, 4, 4, 0,
    2, 6, 0, 0, 3, 3, 5, 0, 2, 2, 2, 0, 4, 4, 6, 0,
    2, 5, 0, 0, 0, 4, 6, 0, 2, 4, 0, 0, 0, 4, 7, 0,
    2, 6, 0, 0, 3, 3, 5, 0, 2, 2, 2, 0, 4, 4, 6, 0,
    2, 5, 0, 0, 0, 4, 6, 0, 2, 4, 0, 0, 0, 4, 7, 0]"

section \<open>Core API (cpu6502.c)\<close>

definition cpu6502_init ::
  "'b cpu6502_t \<Rightarrow> ('b \<Rightarrow> u16 \<Rightarrow> u8 \<times> 'b) \<Rightarrow> ('b \<Rightarrow> u16 \<Rightarrow> u8 \<Rightarrow> 'b) \<Rightarrow> 'b \<Rightarrow> 'b cpu6502_t" where
  "cpu6502_init cpu rd wr ctx =
     (let cpu = cpu\<lparr>a := 0, x := 0, y := 0, sp := 0, pc := 0, cycles := 0,
                     halted := False, page_crossed := False\<rparr>;
          cpu = cpu\<lparr>status := CPU_FLAG_U OR CPU_FLAG_I\<rparr>
      in cpu\<lparr>read := rd, write := wr, bus_ctx := ctx\<rparr>)"

definition cpu6502_reset :: "'b cpu6502_t \<Rightarrow> 'b cpu6502_t" where
  "cpu6502_reset cpu =
     (let (lo, cpu) = cpu_read cpu 0xFFFC;
          (hi, cpu) = cpu_read cpu 0xFFFD;
          cpu = cpu\<lparr>pc := push_bit 8 (ucast hi) OR ucast lo\<rparr>;
          cpu = cpu\<lparr>sp := 0xFD\<rparr>;
          cpu = cpu\<lparr>status := status cpu OR CPU_FLAG_I\<rparr>;
          cpu = cpu\<lparr>status := status cpu OR CPU_FLAG_U\<rparr>;
          cpu = cpu\<lparr>halted := False\<rparr>
      in cpu\<lparr>cycles := cycles cpu + 7\<rparr>)"

definition cpu6502_step :: "'b cpu6502_t \<Rightarrow> 'b cpu6502_t" where
  "cpu6502_step cpu =
     (if halted cpu then cpu
      else
        let cpu = cpu\<lparr>page_crossed := False\<rparr>;
            (opcode, cpu) = cpu_read (cpu\<lparr>pc := pc cpu + 1\<rparr>) (pc cpu);
            cpu = cpu\<lparr>cycles := cycles cpu + ucast (opcode_cycles ! unat opcode)\<rparr>
        in (opcode_table ! unat opcode) cpu)"

definition cpu6502_irq :: "'b cpu6502_t \<Rightarrow> 'b cpu6502_t" where
  "cpu6502_irq cpu =
     (if cpu_get_flag cpu CPU_FLAG_I then cpu
      else
        let cpu = cpu_push16 cpu (pc cpu);
            flags = status cpu;
            flags = flags AND NOT CPU_FLAG_B;
            flags = flags OR CPU_FLAG_U;
            cpu = cpu_push cpu flags;
            cpu = cpu_set_flag cpu CPU_FLAG_I True;
            (lo, cpu) = cpu_read cpu 0xFFFE;
            (hi, cpu) = cpu_read cpu 0xFFFF;
            cpu = cpu\<lparr>pc := push_bit 8 (ucast hi) OR ucast lo\<rparr>
        in cpu\<lparr>cycles := cycles cpu + 7\<rparr>)"

definition cpu6502_nmi :: "'b cpu6502_t \<Rightarrow> 'b cpu6502_t" where
  "cpu6502_nmi cpu =
     (let cpu = cpu_push16 cpu (pc cpu);
          flags = status cpu;
          flags = flags AND NOT CPU_FLAG_B;
          flags = flags OR CPU_FLAG_U;
          cpu = cpu_push cpu flags;
          cpu = cpu_set_flag cpu CPU_FLAG_I True;
          (lo, cpu) = cpu_read cpu 0xFFFA;
          (hi, cpu) = cpu_read cpu 0xFFFB;
          cpu = cpu\<lparr>pc := push_bit 8 (ucast hi) OR ucast lo\<rparr>
      in cpu\<lparr>cycles := cycles cpu + 7\<rparr>)"

section \<open>Flat 64 KiB bus (bus.h, bus.c)\<close>

record bus_flat_t =
  ram :: "nat \<Rightarrow> u8"

definition bus_flat_init :: "bus_flat_t \<Rightarrow> bus_flat_t" where
  "bus_flat_init bus = bus\<lparr>ram := (\<lambda>i. 0)\<rparr>"

definition bus_flat_read :: "bus_flat_t \<Rightarrow> u16 \<Rightarrow> u8 \<times> bus_flat_t" where
  "bus_flat_read bus addr = (ram bus (unat addr), bus)"

definition bus_flat_write :: "bus_flat_t \<Rightarrow> u16 \<Rightarrow> u8 \<Rightarrow> bus_flat_t" where
  "bus_flat_write bus addr val = bus\<lparr>ram := (ram bus)(unat addr := val)\<rparr>"

section \<open>Cartridge, mapper 0 (cartridge.h, cartridge.c)\<close>

datatype mirror_mode_t = MIRROR_HORIZONTAL | MIRROR_VERTICAL

text \<open>
  \<^verbatim>\<open>prg_rom\<close> and \<^verbatim>\<open>chr_rom\<close> point to the images the loader allocated; they are modelled
  by their contents.
\<close>

record cartridge_t =
  prg_rom :: "nat \<Rightarrow> u8"
  chr_rom :: "nat \<Rightarrow> u8"
  chr_ram :: "nat \<Rightarrow> u8"
  prg_banks :: u8
  chr_banks :: u8
  mapper_id :: u8
  mirror :: mirror_mode_t

definition cartridge_cpu_read :: "cartridge_t \<Rightarrow> u16 \<Rightarrow> u8" where
  "cartridge_cpu_read cart addr =
     (if addr \<ge> 0x8000 then
        if addr < 0xC000 then prg_rom cart (unat (addr AND 0x3FFF))
        else if prg_banks cart = 1 then prg_rom cart (unat (addr AND 0x3FFF))
        else prg_rom cart (0x4000 + unat (addr AND 0x3FFF))
      else 0)"

definition cartridge_cpu_write :: "cartridge_t \<Rightarrow> u16 \<Rightarrow> u8 \<Rightarrow> cartridge_t" where
  "cartridge_cpu_write cart addr val = cart"

definition cartridge_chr_read :: "cartridge_t \<Rightarrow> u16 \<Rightarrow> u8" where
  "cartridge_chr_read cart addr =
     (if chr_banks cart > 0 then chr_rom cart (unat (addr AND 0x1FFF))
      else chr_ram cart (unat (addr AND 0x1FFF)))"

definition cartridge_chr_write :: "cartridge_t \<Rightarrow> u16 \<Rightarrow> u8 \<Rightarrow> cartridge_t" where
  "cartridge_chr_write cart addr val =
     (if chr_banks cart = 0
      then cart\<lparr>chr_ram := (chr_ram cart)(unat (addr AND 0x1FFF) := val)\<rparr>
      else cart)"

section \<open>PPU state (ppu.h)\<close>

text \<open>
  The struct \<^verbatim>\<open>ppu_t\<close>.  Its back-pointer \<^verbatim>\<open>nes\<close> is used only to reach the cartridge
  (\<^verbatim>\<open>ppu->nes->cart\<close>), so the functions below take the cartridge as an argument and
  return it where they may write CHR RAM.  The register \<^verbatim>\<open>mask\<close> is named \<open>mask_reg\<close>,
  \<open>mask\<close> being a constant of the word library.
\<close>

record ppu_t =
  nametable :: "nat \<Rightarrow> u8"
  palette :: "nat \<Rightarrow> u8"
  oam :: "nat \<Rightarrow> u8"
  ctrl :: u8
  mask_reg :: u8
  status :: u8
  oam_addr :: u8
  v :: u16
  t :: u16
  fine_x :: u8
  w :: bool
  data_buf :: u8
  scanline :: int
  cycle :: int
  frame :: u64
  nmi_occurred :: bool
  nmi_output :: bool
  framebuffer :: "nat \<Rightarrow> u32"

definition NES_WIDTH :: int where "NES_WIDTH = 256"
definition NES_HEIGHT :: int where "NES_HEIGHT = 240"

definition nes_palette :: "u32 list" where
  "nes_palette = [
    0xFF666666, 0xFF002A88, 0xFF1412A7, 0xFF3B00A4,
    0xFF5C007E, 0xFF6E0040, 0xFF6C0600, 0xFF561D00,
    0xFF333500, 0xFF0B4800, 0xFF005200, 0xFF004F08,
    0xFF00404D, 0xFF000000, 0xFF000000, 0xFF000000,
    0xFFADADAD, 0xFF155FD9, 0xFF4240FF, 0xFF7527FE,
    0xFFA01ACC, 0xFFB71E7B, 0xFFB53120, 0xFF994E00,
    0xFF6B6D00, 0xFF388700, 0xFF0C9300, 0xFF008F32,
    0xFF007C8D, 0xFF000000, 0xFF000000, 0xFF000000,
    0xFFFFFFFF, 0xFF64B0FF, 0xFF9290FF, 0xFFC676FF,
    0xFFF36AFF, 0xFFFE6ECC, 0xFFFE8170, 0xFFEA9E22,
    0xFFBCBE00, 0xFF88D800, 0xFF5CE430, 0xFF45E082,
    0xFF48CDDE, 0xFF4F4F4F, 0xFF000000, 0xFF000000,
    0xFFFFFFFF, 0xFFC0DFFF, 0xFFD3D2FF, 0xFFE8C8FF,
    0xFFFBC2FF, 0xFFFEC4EA, 0xFFFECCC5, 0xFFF7D8A5,
    0xFFE4E594, 0xFFCFEF96, 0xFFBDF4AB, 0xFFB3F3CC,
    0xFFB5EBF2, 0xFFB8B8B8, 0xFF000000, 0xFF000000]"

section \<open>PPU internal bus (ppu.c)\<close>

definition ppu_bus_read :: "cartridge_t \<Rightarrow> ppu_t \<Rightarrow> u16 \<Rightarrow> u8" where
  "ppu_bus_read cart ppu addr =
     (let addr = addr AND 0x3FFF
      in if addr < 0x2000 then cartridge_chr_read cart addr
         else if addr < 0x3F00 then
           let addr = addr AND 0x2FFF;
               offset = addr - 0x2000;
               table = offset div 0x0400;
               index = offset mod 0x0400;
               nt_index = (if mirror cart = MIRROR_VERTICAL
                           then (table AND 1) * 0x0400 + index
                           else (table div 2) * 0x0400 + index)
           in nametable ppu (unat nt_index)
         else
           let idx = addr AND 0x1F;
               idx = (if idx = 0x10 then 0x00 else idx);
               idx = (if idx = 0x14 then 0x04 else idx);
               idx = (if idx = 0x18 then 0x08 else idx);
               idx = (if idx = 0x1C then 0x0C else idx)
           in palette ppu (unat idx))"

definition ppu_bus_write :: "cartridge_t \<Rightarrow> ppu_t \<Rightarrow> u16 \<Rightarrow> u8 \<Rightarrow> cartridge_t \<times> ppu_t" where
  "ppu_bus_write cart ppu addr val =
     (let addr = addr AND 0x3FFF
      in if addr < 0x2000 then (cartridge_chr_write cart addr val, ppu)
         else if addr < 0x3F00 then
           let addr = addr AND 0x2FFF;
               offset = addr - 0x2000;
               table = offset div 0x0400;
               index = offset mod 0x0400;
               nt_index = (if mirror cart = MIRROR_VERTICAL
                           then (table AND 1) * 0x0400 + index
                           else (table div 2) * 0x0400 + index)
           in (cart, ppu\<lparr>nametable := (nametable ppu)(unat nt_index := val)\<rparr>)
         else
           let idx = addr AND 0x1F;
               idx = (if idx = 0x10 then 0x00 else idx);
               idx = (if idx = 0x14 then 0x04 else idx);
               idx = (if idx = 0x18 then 0x08 else idx);
               idx = (if idx = 0x1C then 0x0C else idx)
           in (cart, ppu\<lparr>palette := (palette ppu)(unat idx := val AND 0x3F)\<rparr>))"

section \<open>CPU-facing PPU registers (ppu.c)\<close>

definition ppu_cpu_write :: "cartridge_t \<Rightarrow> ppu_t \<Rightarrow> u16 \<Rightarrow> u8 \<Rightarrow> cartridge_t \<times> ppu_t" where
  "ppu_cpu_write cart ppu addr val =
     (let reg = addr AND 0x07
      in if reg = 0 then
           let ppu = ppu\<lparr>ctrl := val\<rparr>;
               prev_nmi = nmi_output ppu;
               ppu = ppu\<lparr>nmi_output := (val AND 0x80 \<noteq> 0)\<rparr>;
               ppu = ppu\<lparr>t := (t ppu AND 0xF3FF) OR push_bit 10 (ucast (val AND 0x03))\<rparr>
           in if \<not> prev_nmi \<and> nmi_output ppu \<and> nmi_occurred ppu
              then (cart, ppu\<lparr>nmi_occurred := True\<rparr>)
              else (cart, ppu)
         else if reg = 1 then (cart, ppu\<lparr>mask_reg := val\<rparr>)
         else if reg = 3 then (cart, ppu\<lparr>oam_addr := val\<rparr>)
         else if reg = 4 then
           let ppu = ppu\<lparr>oam := (oam ppu)(unat (oam_addr ppu) := val)\<rparr>
           in (cart, ppu\<lparr>oam_addr := oam_addr ppu + 1\<rparr>)
         else if reg = 5 then
           if \<not> w ppu then
             let ppu = ppu\<lparr>t := (t ppu AND 0xFFE0) OR ucast (drop_bit 3 val)\<rparr>;
                 ppu = ppu\<lparr>fine_x := val AND 0x07\<rparr>
             in (cart, ppu\<lparr>w := True\<rparr>)
           else
             let ppu = ppu\<lparr>t := (t ppu AND 0x8C1F)
                                 OR push_bit 12 (ucast (val AND 0x07))
                                 OR push_bit 2 (ucast (val AND 0xF8))\<rparr>
             in (cart, ppu\<lparr>w := False\<rparr>)
         else if reg = 6 then
           if \<not> w ppu then
             let ppu = ppu\<lparr>t := (t ppu AND 0x00FF) OR push_bit 8 (ucast (val AND 0x3F))\<rparr>
             in (cart, ppu\<lparr>w := True\<rparr>)
           else
             let ppu = ppu\<lparr>t := (t ppu AND 0xFF00) OR ucast val\<rparr>;
                 ppu = ppu\<lparr>v := t ppu\<rparr>
             in (cart, ppu\<lparr>w := False\<rparr>)
         else if reg = 7 then
           let (cart, ppu) = ppu_bus_write cart ppu (v ppu) val
           in (cart, ppu\<lparr>v := v ppu + (if ctrl ppu AND 0x04 \<noteq> 0 then 32 else 1)\<rparr>)
         else (cart, ppu))"

definition ppu_cpu_read :: "cartridge_t \<Rightarrow> ppu_t \<Rightarrow> u16 \<Rightarrow> u8 \<times> ppu_t" where
  "ppu_cpu_read cart ppu addr =
     (let reg = addr AND 0x07
      in if reg = 2 then
           let result = status ppu AND 0xE0;
               result = (if nmi_occurred ppu then result OR 0x80 else result);
               ppu = ppu\<lparr>nmi_occurred := False\<rparr>;
               ppu = ppu\<lparr>w := False\<rparr>
           in (result, ppu)
         else if reg = 4 then (oam ppu (unat (oam_addr ppu)), ppu)
         else if reg = 7 then
           let (data, ppu) =
                 (if v ppu < 0x3F00 then
                    let data = data_buf ppu
                    in (data, ppu\<lparr>data_buf := ppu_bus_read cart ppu (v ppu)\<rparr>)
                  else
                    let data = ppu_bus_read cart ppu (v ppu)
                    in (data, ppu\<lparr>data_buf := ppu_bus_read cart ppu (v ppu - 0x1000)\<rparr>));
               ppu = ppu\<lparr>v := v ppu + (if ctrl ppu AND 0x04 \<noteq> 0 then 32 else 1)\<rparr>
           in (data, ppu)
         else (0, ppu))"

section \<open>Scanline renderer (ppu.c)\<close>

text \<open>
  \<^verbatim>\<open>render_scanline\<close> is one C function with nested loops; each loop body is a definition
  of its own and the loop is a \<^const>\<open>fold\<close> over the index range.  The local scratch arrays
  \<^verbatim>\<open>bg_pixel\<close>, \<^verbatim>\<open>bg_palette\<close>, \<^verbatim>\<open>spr_opaque\<close> and \<^verbatim>\<open>spr_zero\<close> start zeroed
  (\<^verbatim>\<open>memset\<close>); \<^verbatim>\<open>spr_color\<close> and \<^verbatim>\<open>spr_priority\<close> are uninitialised in C and only read at
  positions where \<^verbatim>\<open>spr_opaque\<close> is set, that is, after they were written.
\<close>

definition render_bg_tile ::
  "cartridge_t \<Rightarrow> ppu_t \<Rightarrow> nat \<Rightarrow> u16 \<times> (nat \<Rightarrow> u8) \<times> (nat \<Rightarrow> u8) \<Rightarrow> u16 \<times> (nat \<Rightarrow> u8) \<times> (nat \<Rightarrow> u8)" where
  "render_bg_tile cart ppu tile = (\<lambda>(v0, bg_pixel, bg_palette).
     let nt_addr = 0x2000 OR (v0 AND 0x0FFF);
         tile_id = ppu_bus_read cart ppu nt_addr;
         attr_addr = 0x23C0 OR (v0 AND 0x0C00) OR (drop_bit 4 v0 AND 0x38) OR (drop_bit 2 v0 AND 0x07);
         attr_byte = ppu_bus_read cart ppu attr_addr;
         shift = (ucast ((drop_bit 4 v0 AND 0x04) OR (v0 AND 0x02)) :: u8);
         pal = drop_bit (unat shift) attr_byte AND 0x03;
         pattern_base = (if ctrl ppu AND 0x10 \<noteq> 0 then 0x1000 else 0x0000 :: u16);
         fine_y = (ucast (drop_bit 12 v0 AND 0x07) :: u8);
         plane0 = ppu_bus_read cart ppu (pattern_base + ucast tile_id * 16 + ucast fine_y);
         plane1 = ppu_bus_read cart ppu (pattern_base + ucast tile_id * 16 + ucast fine_y + 8);
         (bg_pixel, bg_palette) =
           fold (\<lambda>px (bg_pixel, bg_palette).
                   let screen_x = int tile * 8 + int px - uint (fine_x ppu)
                   in if screen_x < 0 \<or> screen_x \<ge> 256 then (bg_pixel, bg_palette)
                      else
                        let bit_i = 7 - px;
                            pixel = push_bit 1 (drop_bit bit_i plane1 AND 1)
                                      OR (drop_bit bit_i plane0 AND 1)
                        in (bg_pixel(nat screen_x := pixel), bg_palette(nat screen_x := pal)))
                [0..<8] (bg_pixel, bg_palette);
         v0 = (if v0 AND 0x001F = 31 then (v0 AND NOT 0x001F) XOR 0x0400 else v0 + 1)
     in (v0, bg_pixel, bg_palette))"

definition sprite_evaluation :: "ppu_t \<Rightarrow> int \<Rightarrow> int \<Rightarrow> nat list" where
  "sprite_evaluation ppu yy sprite_height =
     fold (\<lambda>i sprite_indices.
             if length sprite_indices < 8 then
               let sy = oam ppu (i * 4);
                   row = yy - (uint sy + 1)
               in if row \<ge> 0 \<and> row < sprite_height then sprite_indices @ [i]
                  else sprite_indices
             else sprite_indices)
          [0..<64] []"

definition render_sprite ::
  "cartridge_t \<Rightarrow> ppu_t \<Rightarrow> int \<Rightarrow> int \<Rightarrow> nat
     \<Rightarrow> (nat \<Rightarrow> u8) \<times> (nat \<Rightarrow> u8) \<times> (nat \<Rightarrow> u8) \<times> (nat \<Rightarrow> u8)
     \<Rightarrow> (nat \<Rightarrow> u8) \<times> (nat \<Rightarrow> u8) \<times> (nat \<Rightarrow> u8) \<times> (nat \<Rightarrow> u8)" where
  "render_sprite cart ppu yy sprite_height i = (\<lambda>(spr_color, spr_priority, spr_opaque, spr_zero).
     let sy = oam ppu (i * 4 + 0);
         tile = oam ppu (i * 4 + 1);
         attr = oam ppu (i * 4 + 2);
         sx = oam ppu (i * 4 + 3);
         row = yy - (uint sy + 1);
         row = (if attr AND 0x80 \<noteq> 0 then sprite_height - 1 - row else row);
         pattern_addr =
           (if sprite_height = 8 then
              let table = (if ctrl ppu AND 0x08 \<noteq> 0 then 0x1000 else 0x0000 :: int)
              in (word_of_int (table + uint tile * 16 + row) :: u16)
            else
              let table = (if tile AND 1 \<noteq> 0 then 0x1000 else 0x0000 :: int);
                  tile_num = tile AND 0xFE;
                  (tile_num, row) = (if row \<ge> 8 then (tile_num + 1, row - 8) else (tile_num, row))
              in word_of_int (table + uint tile_num * 16 + row));
         plane0 = ppu_bus_read cart ppu pattern_addr;
         plane1 = ppu_bus_read cart ppu (pattern_addr + 8)
     in fold (\<lambda>px (spr_color, spr_priority, spr_opaque, spr_zero).
                let bit_i = (if attr AND 0x40 \<noteq> 0 then px else 7 - px);
                    pixel = push_bit 1 (drop_bit bit_i plane1 AND 1)
                              OR (drop_bit bit_i plane0 AND 1)
                in if pixel = 0 then (spr_color, spr_priority, spr_opaque, spr_zero)
                   else
                     let screen_x = unat sx + px
                     in if screen_x \<ge> 256 then (spr_color, spr_priority, spr_opaque, spr_zero)
                        else
                          let spr_pal = attr AND 0x03;
                              pal_addr = 0x10 + unat spr_pal * 4 + unat pixel;
                              pal_addr = (if pal_addr = 0x10 then 0x00 else pal_addr)
                          in (spr_color(screen_x := palette ppu pal_addr),
                              spr_priority(screen_x := drop_bit 5 attr AND 1),
                              spr_opaque(screen_x := 1),
                              if i = 0 then spr_zero(screen_x := 1) else spr_zero))
             [0..<8] (spr_color, spr_priority, spr_opaque, spr_zero))"

definition composite_pixel ::
  "int \<Rightarrow> (nat \<Rightarrow> u8) \<Rightarrow> (nat \<Rightarrow> u8)
     \<Rightarrow> (nat \<Rightarrow> u8) \<times> (nat \<Rightarrow> u8) \<times> (nat \<Rightarrow> u8) \<times> (nat \<Rightarrow> u8)
     \<Rightarrow> nat \<Rightarrow> ppu_t \<Rightarrow> ppu_t" where
  "composite_pixel yy bg_pixel bg_palette = (\<lambda>(spr_color, spr_priority, spr_opaque, spr_zero) px ppu.
     let show_bg = (bg_pixel px \<noteq> 0 \<and> mask_reg ppu AND 0x08 \<noteq> 0
                      \<and> (px \<ge> 8 \<or> mask_reg ppu AND 0x02 \<noteq> 0));
         show_spr = (spr_opaque px \<noteq> 0 \<and> mask_reg ppu AND 0x10 \<noteq> 0
                      \<and> (px \<ge> 8 \<or> mask_reg ppu AND 0x04 \<noteq> 0));
         ppu = (if show_bg \<and> show_spr \<and> spr_zero px \<noteq> 0 \<and> px \<noteq> 255
                then ppu\<lparr>status := status ppu OR 0x40\<rparr> else ppu);
         color =
           (if \<not> show_bg \<and> \<not> show_spr then palette ppu 0
            else if show_spr \<and> \<not> show_bg then spr_color px
            else if \<not> show_spr \<and> show_bg
              then palette ppu (unat (bg_palette px) * 4 + unat (bg_pixel px))
            else if spr_priority px = 0 then spr_color px
            else palette ppu (unat (bg_palette px) * 4 + unat (bg_pixel px)))
     in ppu\<lparr>framebuffer := (framebuffer ppu)
               (nat (yy * NES_WIDTH + int px) := nes_palette ! unat (color AND 0x3F))\<rparr>)"

definition render_scanline :: "cartridge_t \<Rightarrow> ppu_t \<Rightarrow> ppu_t" where
  "render_scanline cart ppu =
     (let yy = scanline ppu;
          zeroed = (\<lambda>i. 0 :: u8);
          (bg_pixel, bg_palette) =
            (if mask_reg ppu AND 0x08 \<noteq> 0 then
               let (v0, bg_pixel, bg_palette) =
                     fold (render_bg_tile cart ppu) [0..<33] (v ppu, zeroed, zeroed)
               in (bg_pixel, bg_palette)
             else (zeroed, zeroed));
          sprites =
            (if mask_reg ppu AND 0x10 \<noteq> 0 then
               let sprite_height = (if ctrl ppu AND 0x20 \<noteq> 0 then 16 else 8 :: int);
                   sprite_indices = sprite_evaluation ppu yy sprite_height
               in fold (render_sprite cart ppu yy sprite_height) (rev sprite_indices)
                    (zeroed, zeroed, zeroed, zeroed)
             else (zeroed, zeroed, zeroed, zeroed));
          ppu = fold (composite_pixel yy bg_pixel bg_palette sprites) [0..<256] ppu;
          ppu =
            (if v ppu AND 0x7000 \<noteq> 0x7000 then ppu\<lparr>v := v ppu + 0x1000\<rparr>
             else
               let ppu = ppu\<lparr>v := v ppu AND NOT 0x7000\<rparr>;
                   cy = uint (drop_bit 5 (v ppu AND 0x03E0));
                   (cy, ppu) =
                     (if cy = 29 then (0, ppu\<lparr>v := v ppu XOR 0x0800\<rparr>)
                      else if cy = 31 then (0, ppu)
                      else (cy + 1, ppu))
               in ppu\<lparr>v := (v ppu AND NOT 0x03E0) OR word_of_int (push_bit 5 cy)\<rparr>)
      in ppu\<lparr>v := (v ppu AND NOT 0x041F) OR (t ppu AND 0x041F)\<rparr>)"

section \<open>PPU clock (ppu.c)\<close>

text \<open>
  \<^verbatim>\<open>ppu_step\<close> advances the PPU by one cycle and returns \<^verbatim>\<open>nmi_triggered\<close> together with
  the new state.
\<close>

definition ppu_step :: "cartridge_t \<Rightarrow> ppu_t \<Rightarrow> bool \<times> ppu_t" where
  "ppu_step cart ppu =
     (let nmi_triggered = False;
          rendering_enabled = (mask_reg ppu AND 0x18 \<noteq> 0);
          (nmi_triggered, ppu) =
            (if scanline ppu = - 1 then
               let ppu = (if cycle ppu = 1
                          then ppu\<lparr>nmi_occurred := False, status := status ppu AND NOT 0xE0\<rparr>
                          else ppu);
                   ppu = (if rendering_enabled \<and> cycle ppu \<ge> 280 \<and> cycle ppu \<le> 304
                          then ppu\<lparr>v := (v ppu AND NOT 0x7BE0) OR (t ppu AND 0x7BE0)\<rparr>
                          else ppu)
               in (nmi_triggered, ppu)
             else if scanline ppu \<ge> 0 \<and> scanline ppu < 240 then
               (nmi_triggered,
                if cycle ppu = 0 \<and> rendering_enabled then render_scanline cart ppu else ppu)
             else if scanline ppu = 241 \<and> cycle ppu = 1 then
               let ppu = ppu\<lparr>nmi_occurred := True\<rparr>;
                   ppu = ppu\<lparr>status := status ppu OR 0x80\<rparr>
               in (if nmi_output ppu then True else nmi_triggered, ppu)
             else (nmi_triggered, ppu));
          ppu = ppu\<lparr>cycle := cycle ppu + 1\<rparr>;
          ppu =
            (if cycle ppu > 340 then
               let ppu = ppu\<lparr>cycle := 0\<rparr>;
                   ppu = ppu\<lparr>scanline := scanline ppu + 1\<rparr>
               in if scanline ppu > 260
                  then ppu\<lparr>scanline := - 1, frame := frame ppu + 1\<rparr>
                  else ppu
             else ppu)
      in (nmi_triggered, ppu))"

definition ppu_init :: "ppu_t" where
  "ppu_init =
     \<lparr>nametable = (\<lambda>i. 0), palette = (\<lambda>i. 0), oam = (\<lambda>i. 0),
      ctrl = 0, mask_reg = 0, status = 0, oam_addr = 0,
      v = 0, t = 0, fine_x = 0, w = False, data_buf = 0,
      scanline = - 1, cycle = 0, frame = 0,
      nmi_occurred = False, nmi_output = False, framebuffer = (\<lambda>i. 0)\<rparr>"

definition ppu_reset :: "ppu_t \<Rightarrow> ppu_t" where
  "ppu_reset ppu =
     ppu\<lparr>ctrl := 0, mask_reg := 0, status := 0, oam_addr := 0,
         v := 0, t := 0, fine_x := 0, w := False, data_buf := 0,
         scanline := - 1, cycle := 0, frame := 0,
         nmi_occurred := False, nmi_output := False,
         nametable := (\<lambda>i. 0), palette := (\<lambda>i. 0), oam := (\<lambda>i. 0),
         framebuffer := (\<lambda>i. 0)\<rparr>"

text \<open>
  Running the PPU clock until it stands at a given scanline and cycle, keeping the signal
  each tick returned.  The run takes fuel (the number of ticks it may make); \<open>None\<close> says
  that the position was not reached within the fuel.
\<close>

fun ppu_run_until ::
  "nat \<Rightarrow> int \<Rightarrow> int \<Rightarrow> cartridge_t \<Rightarrow> ppu_t \<Rightarrow> (bool list \<times> ppu_t) option" where
  "ppu_run_until fuel to_scanline to_cycle cart ppu =
     (if scanline ppu = to_scanline \<and> cycle ppu = to_cycle then Some ([], ppu)
      else case fuel of
             0 \<Rightarrow> None
           | Suc n \<Rightarrow>
               (let (nmi, ppu) = ppu_step cart ppu
                in case ppu_run_until n to_scanline to_cycle cart ppu of
                     None \<Rightarrow> None
                   | Some (signals, ppu) \<Rightarrow> Some (nmi # signals, ppu)))"

section \<open>System state and CPU bus map (nes.h, nes.c)\<close>

text \<open>
  The struct \<^verbatim>\<open>nes_t\<close> holds the CPU, and the CPU's \<^verbatim>\<open>bus_ctx\<close> points back to the same
  \<^verbatim>\<open>nes_t\<close>.  The model breaks the cycle at the pointer: the record \<open>nes_t\<close> has every
  field of the struct except \<^verbatim>\<open>cpu\<close>, and the whole machine is a \<open>nes_t cpu6502_t\<close> whose
  \<open>bus_ctx\<close> is that record, with \<open>read = nes_bus_read\<close> and \<open>write = nes_bus_write\<close> as
  \<^verbatim>\<open>nes_init\<close> installs them.  Neither bus function touches \<^verbatim>\<open>nes->cpu\<close>.
\<close>

record nes_t =
  ppu :: ppu_t
  cart :: cartridge_t
  ram :: "nat \<Rightarrow> u8"
  controller :: "nat \<Rightarrow> u8"
  controller_shift :: "nat \<Rightarrow> u8"
  controller_strobe :: bool
  dma_pending :: bool
  dma_page :: u8
  dma_addr :: u16
  dma_dummy :: bool
  system_cycles :: u64

definition nes_bus_read :: "nes_t \<Rightarrow> u16 \<Rightarrow> u8 \<times> nes_t" where
  "nes_bus_read nes addr =
     (if addr < 0x2000 then (ram nes (unat (addr AND 0x07FF)), nes)
      else if addr < 0x4000 then
        let (val, p) = ppu_cpu_read (cart nes) (ppu nes) (addr AND 0x0007)
        in (val, nes\<lparr>ppu := p\<rparr>)
      else if addr = 0x4016 then
        let bit0 = controller_shift nes 0 AND 0x01
        in (bit0, nes\<lparr>controller_shift := (controller_shift nes)(0 := drop_bit 1 (controller_shift nes 0))\<rparr>)
      else if addr = 0x4017 then
        let bit0 = controller_shift nes 1 AND 0x01
        in (bit0, nes\<lparr>controller_shift := (controller_shift nes)(1 := drop_bit 1 (controller_shift nes 1))\<rparr>)
      else if addr < 0x4020 then (0, nes)
      else (cartridge_cpu_read (cart nes) addr, nes))"

definition nes_bus_write :: "nes_t \<Rightarrow> u16 \<Rightarrow> u8 \<Rightarrow> nes_t" where
  "nes_bus_write nes addr val =
     (if addr < 0x2000 then nes\<lparr>ram := (ram nes)(unat (addr AND 0x07FF) := val)\<rparr>
      else if addr < 0x4000 then
        let (c, p) = ppu_cpu_write (cart nes) (ppu nes) (addr AND 0x0007) val
        in nes\<lparr>ppu := p, cart := c\<rparr>
      else if addr = 0x4014 then nes\<lparr>dma_pending := True, dma_page := val\<rparr>
      else if addr = 0x4016 then
        if val AND 0x01 \<noteq> 0 then nes\<lparr>controller_strobe := True\<rparr>
        else if controller_strobe nes then
          let nes = nes\<lparr>controller_shift := (controller_shift nes)(0 := controller nes 0)\<rparr>;
              nes = nes\<lparr>controller_shift := (controller_shift nes)(1 := controller nes 1)\<rparr>
          in nes\<lparr>controller_strobe := False\<rparr>
        else nes
      else if addr < 0x4020 then nes
      else nes\<lparr>cart := cartridge_cpu_write (cart nes) addr val\<rparr>)"

definition nes_set_controller :: "nes_t \<Rightarrow> int \<Rightarrow> u8 \<Rightarrow> nes_t" where
  "nes_set_controller nes port buttons =
     (if port < 0 \<or> port > 1 then nes
      else nes\<lparr>controller := (controller nes)(nat port := buttons)\<rparr>)"

section \<open>Frame loop (nes.c)\<close>

text \<open>
  The body of the two \<^verbatim>\<open>for\<close> loops of \<^verbatim>\<open>nes_step_frame\<close>: one PPU cycle, and the NMI
  entry sequence of the CPU when \<^verbatim>\<open>ppu_step\<close> returns true.
\<close>

definition ppu_tick :: "nes_t cpu6502_t \<Rightarrow> nes_t cpu6502_t" where
  "ppu_tick m =
     (let nes = bus_ctx m;
          (nmi, p) = ppu_step (cart nes) (ppu nes);
          m = m\<lparr>bus_ctx := nes\<lparr>ppu := p\<rparr>\<rparr>
      in if nmi then cpu6502_nmi m else m)"

text \<open>The OAM DMA copy loop: \<^verbatim>\<open>nes->ppu.oam[i] = nes_bus_read(nes, src)\<close>.\<close>

definition dma_copy :: "nat \<Rightarrow> nes_t \<Rightarrow> nes_t" where
  "dma_copy i nes =
     (let src = push_bit 8 (ucast (dma_page nes)) OR (of_nat i :: u16);
          (val, nes) = nes_bus_read nes src
      in nes\<lparr>ppu := (ppu nes)\<lparr>oam := (oam (ppu nes))(i := val)\<rparr>\<rparr>)"

text \<open>One iteration of the \<^verbatim>\<open>while\<close> loop of \<^verbatim>\<open>nes_step_frame\<close>.\<close>

definition nes_step_frame_body :: "nes_t cpu6502_t \<Rightarrow> nes_t cpu6502_t" where
  "nes_step_frame_body m =
     (if dma_pending (bus_ctx m) then
        let nes = fold dma_copy [0..<256] (bus_ctx m);
            nes = nes\<lparr>dma_pending := False\<rparr>;
            m = m\<lparr>bus_ctx := nes\<rparr>;
            m = (ppu_tick ^^ 1542) m
        in m\<lparr>cycles := cycles m + 514\<rparr>
      else
        let prev = cycles m;
            m = cpu6502_step m;
            elapsed = cycles m - prev
        in (ppu_tick ^^ unat (elapsed * 3)) m)"

text \<open>
  The \<^verbatim>\<open>while (nes->ppu.frame == start_frame)\<close> loop may run forever, so it takes fuel:
  the number of iterations it may still make.  \<open>None\<close> says that the loop has not left
  after that many iterations; \<^verbatim>\<open>nes_step_frame\<close> returns to its caller exactly when some
  amount of fuel gives \<open>Some\<close>.
\<close>

fun nes_step_frame_loop :: "nat \<Rightarrow> u64 \<Rightarrow> nes_t cpu6502_t \<Rightarrow> nes_t cpu6502_t option" where
  "nes_step_frame_loop 0 start_frame m = None"
| "nes_step_frame_loop (Suc fuel) start_frame m =
     (if frame (ppu (bus_ctx m)) = start_frame
      then nes_step_frame_loop fuel start_frame (nes_step_frame_body m)
      else Some m)"

definition nes_step_frame :: "nat \<Rightarrow> nes_t cpu6502_t \<Rightarrow> nes_t cpu6502_t option" where
  "nes_step_frame fuel m = nes_step_frame_loop fuel (frame (ppu (bus_ctx m))) m"

section \<open>System start-up (nes.c)\<close>

text \<open>
  \<^verbatim>\<open>nes_init\<close> after \<^verbatim>\<open>cartridge_load\<close> has succeeded: the struct is zeroed, the PPU and
  the CPU are initialised, and the CPU is reset.  Reading the ROM file is outside the
  model; the loaded cartridge is the argument.
\<close>

definition nes_init :: "cartridge_t \<Rightarrow> nes_t cpu6502_t" where
  "nes_init loaded =
     (let nes = \<lparr>ppu = ppu_init, cart = loaded, ram = (\<lambda>i. 0),
                 controller = (\<lambda>i. 0), controller_shift = (\<lambda>i. 0), controller_strobe = False,
                 dma_pending = False, dma_page = 0, dma_addr = 0, dma_dummy = False,
                 system_cycles = 0\<rparr>;
          cpu = \<lparr>a = 0, x = 0, y = 0, sp = 0, pc = 0, cpu6502_t.status = 0, cycles = 0,
                 halted = False, page_crossed = False,
                 read = nes_bus_read, write = nes_bus_write, bus_ctx = nes\<rparr>;
          cpu = cpu6502_init cpu nes_bus_read nes_bus_write nes
      in cpu6502_reset cpu)"

text \<open>Successive CPU reads of \<^verbatim>\<open>$4016\<close>, in order.\<close>

fun controller_reads :: "nat \<Rightarrow> nes_t \<Rightarrow> u8 list \<times> nes_t" where
  "controller_reads 0 nes = ([], nes)"
| "controller_reads (Suc n) nes =
     (let (b, nes) = nes_bus_read nes 0x4016;
          (bs, nes) = controller_reads n nes
      in (b # bs, nes))"

section \<open>Notions used by the properties\<close>

text \<open>Bits 5 and 4 of the CPU status register, the two the status invariant is about.\<close>

definition st30 :: "'b cpu6502_t \<Rightarrow> u8" where
  "st30 cpu = cpu6502_t.status cpu AND 0x30"

definition keeps_st30 :: "('b cpu6502_t \<Rightarrow> 'b cpu6502_t) \<Rightarrow> bool" where
  "keeps_st30 h = (\<forall>cpu. st30 cpu = 0x20 \<longrightarrow> st30 (h cpu) = 0x20)"






text \<open>The 105 opcodes that \<^verbatim>\<open>opcode_table\<close> sends to \<^verbatim>\<open>op_ill\<close>.\<close>

definition illegal_opcodes :: "u8 list" where
  "illegal_opcodes =
     [0x02, 0x03, 0x04, 0x07, 0x0B, 0x0C, 0x0F, 0x12, 0x13, 0x14, 0x17, 0x1A, 0x1B, 0x1C, 0x1F,
      0x22, 0x23, 0x27, 0x2B, 0x2F, 0x32, 0x33, 0x34, 0x37, 0x3A, 0x3B, 0x3C, 0x3F, 0x42, 0x43,
      0x44, 0x47, 0x4B, 0x4F, 0x52, 0x53, 0x54, 0x57, 0x5A, 0x5B, 0x5C, 0x5F, 0x62, 0x63, 0x64,
      0x67, 0x6B, 0x6F, 0x72, 0x73, 0x74, 0x77, 0x7A, 0x7B, 0x7C, 0x7F, 0x80, 0x82, 0x83, 0x87,
      0x89, 0x8B, 0x8F, 0x92, 0x93, 0x97, 0x9B, 0x9C, 0x9E, 0x9F, 0xA3, 0xA7, 0xAB, 0xAF, 0xB2,
      0xB3, 0xB7, 0xBB, 0xBF, 0xC2, 0xC3, 0xC7, 0xCB, 0xCF, 0xD2, 0xD3, 0xD4, 0xD7, 0xDA, 0xDB,
      0xDC, 0xDF, 0xE2, 0xE3, 0xE7, 0xEB, 0xEF, 0xF2, 0xF3, 0xF4, 0xF7, 0xFA, 0xFB, 0xFC, 0xFF]"

section \<open>Example states\<close>

text \<open>A CPU on the flat bus as the stand-alone driver sets it up, with the given memory.\<close>

definition flat_cpu :: "(nat \<times> u8) list \<Rightarrow> bus_flat_t cpu6502_t" where
  "flat_cpu bytes =
     \<lparr>a = 0, x = 0, y = 0, sp = 0xFD, pc = 0x0600, cpu6502_t.status = 0x24, cycles = 0,
      halted = False, page_crossed = False,
      read = bus_flat_read, write = bus_flat_write,
      bus_ctx = \<lparr>bus_flat_t.ram = (\<lambda>i. case map_of bytes i of Some b \<Rightarrow> b | None \<Rightarrow> 0)\<rparr>\<rparr>"



text \<open>\<^verbatim>\<open>PLP\<close> pulling \<^verbatim>\<open>$FF\<close>, a stacked status with B set.\<close>

definition plp_example :: "bus_flat_t cpu6502_t" where
  "plp_example = flat_cpu [(0x0600, 0x28), (0x01FE, 0xFF)]"

text \<open>Decimal mode: \<^verbatim>\<open>A = $15\<close>, D set, carry clear.\<close>

definition bcd_example :: "bus_flat_t cpu6502_t" where
  "bcd_example = (flat_cpu [])\<lparr>a := 0x15, cpu6502_t.status := 0x2C\<rparr>"

text \<open>An NROM image with one PRG bank holding the given bytes, and CHR RAM.\<close>

definition rom_image :: "(nat \<times> u8) list \<Rightarrow> cartridge_t" where
  "rom_image bytes =
     \<lparr>prg_rom = (\<lambda>i. case map_of bytes i of Some b \<Rightarrow> b | None \<Rightarrow> 0),
      chr_rom = (\<lambda>i. 0), chr_ram = (\<lambda>i. 0),
      prg_banks = 1, chr_banks = 0, mapper_id = 0, mirror = MIRROR_HORIZONTAL\<rparr>"

text \<open>A ROM whose reset vector points to \<^verbatim>\<open>$8000\<close>, where the byte \<^verbatim>\<open>$02\<close> is no legal opcode.\<close>

definition illegal_rom :: cartridge_t where
  "illegal_rom = rom_image [(0x0000, 0x02), (0x3FFC, 0x00), (0x3FFD, 0x80)]"

text \<open>
  A ROM that starts with \<^verbatim>\<open>STA $2000\<close>, run with \<^verbatim>\<open>A = $80\<close> while the PPU is in vertical
  blank (scanline 245) with \<^verbatim>\<open>nmi_occurred\<close> set and \<^verbatim>\<open>nmi_output\<close> clear.
\<close>

definition ppuctrl_rom :: cartridge_t where
  "ppuctrl_rom =
     rom_image [(0x0000, 0x8D), (0x0001, 0x00), (0x0002, 0x20), (0x3FFC, 0x00), (0x3FFD, 0x80)]"

definition ppuctrl_example :: "nes_t cpu6502_t" where
  "ppuctrl_example =
     (let m = nes_init ppuctrl_rom;
          nes = bus_ctx m;
          nes = nes\<lparr>ppu := (ppu nes)\<lparr>scanline := 245, cycle := 0, nmi_occurred := True,
                                   status := 0x80, nmi_output := False\<rparr>\<rparr>
      in m\<lparr>a := 0x80, bus_ctx := nes\<rparr>)"

text \<open>A system whose first controller has button A down and whose strobe is low.\<close>

definition button_a_example :: nes_t where
  "button_a_example =
     (bus_ctx (nes_init (rom_image [])))\<lparr>controller := (\<lambda>i. 0)(0 := 0x01)\<rparr>"

text \<open>A system whose first controller holds \<^verbatim>\<open>$A5\<close> and whose strobe is high.\<close>

definition strobe_high_example :: nes_t where
  "strobe_high_example =
     (bus_ctx (nes_init (rom_image [])))\<lparr>controller := (\<lambda>i. 0)(0 := 0xA5),
                                         controller_strobe := True\<rparr>"

text \<open>A PPU at the last cycle of scanline 240 with NMI output enabled.\<close>

definition vblank_example :: ppu_t where
  "vblank_example = ppu_init\<lparr>scanline := 240, cycle := 340, nmi_output := True\<rparr>"

section \<open>Properties of the CPU helpers\<close>

text \<open>
  What each helper leaves alone: the cycle counter, the page-crossing flag, the program
  counter, and bits 5 and 4 of the status register.
\<close>


lemmas cpu_flag_defs = CPU_FLAG_C_def CPU_FLAG_Z_def CPU_FLAG_I_def CPU_FLAG_D_def
  CPU_FLAG_B_def CPU_FLAG_U_def CPU_FLAG_V_def CPU_FLAG_N_def

lemma or_and30: "(s OR f) AND m = (s AND m) OR (f AND (m :: u8))"
  by (simp add: bit.conj_disj_distrib2)

lemma andnot_and30: "(s AND NOT f) AND m = s AND (NOT f AND (m :: u8))"
  by (simp add: ac_simps)

lemma cpu_set_flag_proj [simp]:
  "cycles (cpu_set_flag cpu f b) = cycles cpu"
  "page_crossed (cpu_set_flag cpu f b) = page_crossed cpu"
  "pc (cpu_set_flag cpu f b) = pc cpu"
  "halted (cpu_set_flag cpu f b) = halted cpu"
  "read (cpu_set_flag cpu f b) = read cpu"
  "write (cpu_set_flag cpu f b) = write cpu"
  "bus_ctx (cpu_set_flag cpu f b) = bus_ctx cpu"
  by (simp_all add: cpu_set_flag_def)

lemma cpu_set_flag_st30_flags [simp]:
  "st30 (cpu_set_flag cpu CPU_FLAG_C b) = st30 cpu"
  "st30 (cpu_set_flag cpu CPU_FLAG_Z b) = st30 cpu"
  "st30 (cpu_set_flag cpu CPU_FLAG_I b) = st30 cpu"
  "st30 (cpu_set_flag cpu CPU_FLAG_D b) = st30 cpu"
  "st30 (cpu_set_flag cpu CPU_FLAG_V b) = st30 cpu"
  "st30 (cpu_set_flag cpu CPU_FLAG_N b) = st30 cpu"
  by (simp_all add: cpu_set_flag_def st30_def or_and30 and.assoc cpu_flag_defs)

lemma st30_upd [simp]:
  "st30 (cpu\<lparr>a := va\<rparr>) = st30 cpu"
  "st30 (cpu\<lparr>x := vx\<rparr>) = st30 cpu"
  "st30 (cpu\<lparr>y := vy\<rparr>) = st30 cpu"
  "st30 (cpu\<lparr>sp := vs\<rparr>) = st30 cpu"
  "st30 (cpu\<lparr>pc := vp\<rparr>) = st30 cpu"
  "st30 (cpu\<lparr>cycles := vc\<rparr>) = st30 cpu"
  "st30 (cpu\<lparr>halted := vh\<rparr>) = st30 cpu"
  "st30 (cpu\<lparr>page_crossed := vg\<rparr>) = st30 cpu"
  "st30 (cpu\<lparr>bus_ctx := vb\<rparr>) = st30 cpu"
  by (simp_all add: st30_def)

lemma cpu_set_nz_proj [simp]:
  "cycles (cpu_set_nz cpu val) = cycles cpu"
  "page_crossed (cpu_set_nz cpu val) = page_crossed cpu"
  "pc (cpu_set_nz cpu val) = pc cpu"
  "st30 (cpu_set_nz cpu val) = st30 cpu"
  by (simp_all add: cpu_set_nz_def Let_def)

lemma cpu_read_proj [simp]:
  "cycles (snd (cpu_read cpu addr)) = cycles cpu"
  "page_crossed (snd (cpu_read cpu addr)) = page_crossed cpu"
  "pc (snd (cpu_read cpu addr)) = pc cpu"
  "cpu6502_t.status (snd (cpu_read cpu addr)) = cpu6502_t.status cpu"
  "st30 (snd (cpu_read cpu addr)) = st30 cpu"
  "halted (snd (cpu_read cpu addr)) = halted cpu"
  by (simp_all add: cpu_read_def split_beta st30_def)

lemma cpu_write_proj [simp]:
  "cycles (cpu_write cpu addr val) = cycles cpu"
  "page_crossed (cpu_write cpu addr val) = page_crossed cpu"
  "pc (cpu_write cpu addr val) = pc cpu"
  "cpu6502_t.status (cpu_write cpu addr val) = cpu6502_t.status cpu"
  "st30 (cpu_write cpu addr val) = st30 cpu"
  by (simp_all add: cpu_write_def st30_def)

lemma cpu_push_proj [simp]:
  "cycles (cpu_push cpu val) = cycles cpu"
  "page_crossed (cpu_push cpu val) = page_crossed cpu"
  "pc (cpu_push cpu val) = pc cpu"
  "cpu6502_t.status (cpu_push cpu val) = cpu6502_t.status cpu"
  "st30 (cpu_push cpu val) = st30 cpu"
  by (simp_all add: cpu_push_def Let_def)

lemma cpu_pull_proj [simp]:
  "cycles (snd (cpu_pull cpu)) = cycles cpu"
  "page_crossed (snd (cpu_pull cpu)) = page_crossed cpu"
  "pc (snd (cpu_pull cpu)) = pc cpu"
  "st30 (snd (cpu_pull cpu)) = st30 cpu"
  by (simp_all add: cpu_pull_def Let_def)

lemma cpu_push16_proj [simp]:
  "cycles (cpu_push16 cpu val) = cycles cpu"
  "page_crossed (cpu_push16 cpu val) = page_crossed cpu"
  "pc (cpu_push16 cpu val) = pc cpu"
  "cpu6502_t.status (cpu_push16 cpu val) = cpu6502_t.status cpu"
  "st30 (cpu_push16 cpu val) = st30 cpu"
  by (simp_all add: cpu_push16_def Let_def)

lemma cpu_pull16_proj [simp]:
  "cycles (snd (cpu_pull16 cpu)) = cycles cpu"
  "page_crossed (snd (cpu_pull16 cpu)) = page_crossed cpu"
  "st30 (snd (cpu_pull16 cpu)) = st30 cpu"
  by (simp_all add: cpu_pull16_def split_beta Let_def)

lemma addr_plain_proj [simp]:
  "cycles (snd (addr_imm cpu)) = cycles cpu"
  "page_crossed (snd (addr_imm cpu)) = page_crossed cpu"
  "cpu6502_t.status (snd (addr_imm cpu)) = cpu6502_t.status cpu"
  "st30 (snd (addr_imm cpu)) = st30 cpu"
  "cycles (snd (addr_zpg cpu)) = cycles cpu"
  "page_crossed (snd (addr_zpg cpu)) = page_crossed cpu"
  "cpu6502_t.status (snd (addr_zpg cpu)) = cpu6502_t.status cpu"
  "st30 (snd (addr_zpg cpu)) = st30 cpu"
  "cycles (snd (addr_zpx cpu)) = cycles cpu"
  "page_crossed (snd (addr_zpx cpu)) = page_crossed cpu"
  "cpu6502_t.status (snd (addr_zpx cpu)) = cpu6502_t.status cpu"
  "st30 (snd (addr_zpx cpu)) = st30 cpu"
  "cycles (snd (addr_zpy cpu)) = cycles cpu"
  "page_crossed (snd (addr_zpy cpu)) = page_crossed cpu"
  "cpu6502_t.status (snd (addr_zpy cpu)) = cpu6502_t.status cpu"
  "st30 (snd (addr_zpy cpu)) = st30 cpu"
  "cycles (snd (addr_abs cpu)) = cycles cpu"
  "page_crossed (snd (addr_abs cpu)) = page_crossed cpu"
  "cpu6502_t.status (snd (addr_abs cpu)) = cpu6502_t.status cpu"
  "st30 (snd (addr_abs cpu)) = st30 cpu"
  "cycles (snd (addr_izx cpu)) = cycles cpu"
  "page_crossed (snd (addr_izx cpu)) = page_crossed cpu"
  "cpu6502_t.status (snd (addr_izx cpu)) = cpu6502_t.status cpu"
  "st30 (snd (addr_izx cpu)) = st30 cpu"
  by (simp_all add: addr_imm_def addr_zpg_def addr_zpx_def addr_zpy_def addr_abs_def addr_izx_def split_beta Let_def st30_def)

lemma addr_indexed_proj [simp]:
  "cycles (snd (addr_abx cpu)) = cycles cpu"
  "cpu6502_t.status (snd (addr_abx cpu)) = cpu6502_t.status cpu"
  "st30 (snd (addr_abx cpu)) = st30 cpu"
  "cycles (snd (addr_aby cpu)) = cycles cpu"
  "cpu6502_t.status (snd (addr_aby cpu)) = cpu6502_t.status cpu"
  "st30 (snd (addr_aby cpu)) = st30 cpu"
  "cycles (snd (addr_izy cpu)) = cycles cpu"
  "cpu6502_t.status (snd (addr_izy cpu)) = cpu6502_t.status cpu"
  "st30 (snd (addr_izy cpu)) = st30 cpu"
  by (simp_all add: addr_abx_def addr_aby_def addr_izy_def split_beta Let_def st30_def)

lemma do_core_proj [simp]:
  "cycles (do_adc cpu val) = cycles cpu"
  "page_crossed (do_adc cpu val) = page_crossed cpu"
  "st30 (do_adc cpu val) = st30 cpu"
  "cycles (do_sbc cpu val) = cycles cpu"
  "page_crossed (do_sbc cpu val) = page_crossed cpu"
  "st30 (do_sbc cpu val) = st30 cpu"
  "cycles (do_cmp cpu reg val) = cycles cpu"
  "page_crossed (do_cmp cpu reg val) = page_crossed cpu"
  "st30 (do_cmp cpu reg val) = st30 cpu"
  "cycles (do_and cpu val) = cycles cpu"
  "page_crossed (do_and cpu val) = page_crossed cpu"
  "st30 (do_and cpu val) = st30 cpu"
  "cycles (do_ora cpu val) = cycles cpu"
  "page_crossed (do_ora cpu val) = page_crossed cpu"
  "st30 (do_ora cpu val) = st30 cpu"
  "cycles (do_eor cpu val) = cycles cpu"
  "page_crossed (do_eor cpu val) = page_crossed cpu"
  "st30 (do_eor cpu val) = st30 cpu"
  by (simp_all add: do_adc_def do_sbc_def do_cmp_def do_and_def do_ora_def do_eor_def Let_def)

lemma do_shift_proj [simp]:
  "cycles (snd (do_asl cpu val)) = cycles cpu"
  "page_crossed (snd (do_asl cpu val)) = page_crossed cpu"
  "st30 (snd (do_asl cpu val)) = st30 cpu"
  "cycles (snd (do_lsr cpu val)) = cycles cpu"
  "page_crossed (snd (do_lsr cpu val)) = page_crossed cpu"
  "st30 (snd (do_lsr cpu val)) = st30 cpu"
  "cycles (snd (do_rol cpu val)) = cycles cpu"
  "page_crossed (snd (do_rol cpu val)) = page_crossed cpu"
  "st30 (snd (do_rol cpu val)) = st30 cpu"
  "cycles (snd (do_ror cpu val)) = cycles cpu"
  "page_crossed (snd (do_ror cpu val)) = page_crossed cpu"
  "st30 (snd (do_ror cpu val)) = st30 cpu"
  by (simp_all add: do_asl_def do_lsr_def do_rol_def do_ror_def Let_def)

section \<open>Properties of the opcode handlers\<close>

lemmas handler_defs = op_ill_def op_lda_imm_def op_lda_zpg_def op_lda_zpx_def op_lda_abs_def op_lda_abx_def op_lda_aby_def op_lda_izx_def op_lda_izy_def op_ldx_imm_def op_ldx_zpg_def op_ldx_zpy_def op_ldx_abs_def op_ldx_aby_def op_ldy_imm_def op_ldy_zpg_def op_ldy_zpx_def op_ldy_abs_def op_ldy_abx_def op_sta_zpg_def op_sta_zpx_def op_sta_abs_def op_sta_abx_def op_sta_aby_def op_sta_izx_def op_sta_izy_def op_stx_zpg_def op_stx_zpy_def op_stx_abs_def op_sty_zpg_def op_sty_zpx_def op_sty_abs_def op_adc_imm_def op_adc_zpg_def op_adc_zpx_def op_adc_abs_def op_adc_abx_def op_adc_aby_def op_adc_izx_def op_adc_izy_def op_sbc_imm_def op_sbc_zpg_def op_sbc_zpx_def op_sbc_abs_def op_sbc_abx_def op_sbc_aby_def op_sbc_izx_def op_sbc_izy_def op_cmp_imm_def op_cmp_zpg_def op_cmp_zpx_def op_cmp_abs_def op_cmp_abx_def op_cmp_aby_def op_cmp_izx_def op_cmp_izy_def op_cpx_imm_def op_cpx_zpg_def op_cpx_abs_def op_cpy_imm_def op_cpy_zpg_def op_cpy_abs_def op_and_imm_def op_and_zpg_def op_and_zpx_def op_and_abs_def op_and_abx_def op_and_aby_def op_and_izx_def op_and_izy_def op_eor_imm_def op_eor_zpg_def op_eor_zpx_def op_eor_abs_def op_eor_abx_def op_eor_aby_def op_eor_izx_def op_eor_izy_def op_ora_imm_def op_ora_zpg_def op_ora_zpx_def op_ora_abs_def op_ora_abx_def op_ora_aby_def op_ora_izx_def op_ora_izy_def op_bit_zpg_def op_bit_abs_def op_asl_acc_def op_asl_zpg_def op_asl_zpx_def op_asl_abs_def op_asl_abx_def op_lsr_acc_def op_lsr_zpg_def op_lsr_zpx_def op_lsr_abs_def op_lsr_abx_def op_rol_acc_def op_rol_zpg_def op_rol_zpx_def op_rol_abs_def op_rol_abx_def op_ror_acc_def op_ror_zpg_def op_ror_zpx_def op_ror_abs_def op_ror_abx_def op_inc_zpg_def op_inc_zpx_def op_inc_abs_def op_inc_abx_def op_dec_zpg_def op_dec_zpx_def op_dec_abs_def op_dec_abx_def op_inx_def op_iny_def op_dex_def op_dey_def op_bpl_def op_bmi_def op_bvc_def op_bvs_def op_bcc_def op_bcs_def op_bne_def op_beq_def op_jmp_abs_def op_jmp_ind_def op_jsr_def op_rts_def op_brk_def op_rti_def op_pha_def op_pla_def op_php_def op_plp_def op_tax_def op_tay_def op_txa_def op_tya_def op_tsx_def op_txs_def op_clc_def op_sec_def op_cli_def op_sei_def op_cld_def op_sed_def op_clv_def op_nop_def

lemma pulled_status_st30: "((val OR CPU_FLAG_U) AND NOT CPU_FLAG_B) AND 0x30 = (0x20 :: u8)"
  unfolding cpu_flag_defs
  by (rule bit_word_eqI) (auto simp: bit_simps numeral_eq_Suc less_Suc_eq_0_disj bit_Suc)

lemma keeps_st30_table: "list_all keeps_st30 opcode_table"
  unfolding opcode_table_def keeps_st30_def
  by (simp add: handler_defs Let_def split_beta st30_def[of "_\<lparr>cpu6502_t.status := _\<rparr>"] pulled_status_st30)


lemma branch_proj [simp]:
  "cpu_get_flag (snd (cpu_read cpu addr)) f = cpu_get_flag cpu f"
  "cpu_get_flag (cpu\<lparr>pc := vp\<rparr>) f = cpu_get_flag cpu f"
  by (simp_all add: cpu_get_flag_def)




lemma st30_bits:
  "(st30 cpu = 0x20) = (bit (cpu6502_t.status cpu) 5 \<and> \<not> bit (cpu6502_t.status cpu) 4)"
proof -
  have "\<And>s :: u8. (s AND 0x30 = 0x20) = (bit s 5 \<and> \<not> bit s 4)"
  proof
    fix s :: u8
    assume h: "s AND 0x30 = 0x20"
    have "bit (s AND 0x30) 5 = bit (0x20 :: u8) 5" "bit (s AND 0x30) 4 = bit (0x20 :: u8) 4"
      using h by simp_all
    then show "bit s 5 \<and> \<not> bit s 4"
      by (simp add: bit_and_iff)
  next
    fix s :: u8
    assume "bit s 5 \<and> \<not> bit s 4"
    then show "s AND 0x30 = 0x20"
      by (intro bit_word_eqI) (auto simp: bit_simps numeral_eq_Suc less_Suc_eq_0_disj bit_Suc)
  qed
  then show ?thesis by (simp add: st30_def)
qed

lemma length_opcode_table: "length opcode_table = 256"
  by (simp add: opcode_table_def)

lemma unat_u8_less: "unat (opcode :: u8) < 256"
  using unsigned_less [of opcode, where ?'a = nat] by simp

lemma cpu6502_step_st30:
  fixes cpu :: "'b cpu6502_t"
  shows "st30 cpu = 0x20 \<Longrightarrow> st30 (cpu6502_step cpu) = 0x20"
proof (cases "halted cpu")
  case True
  assume "st30 cpu = 0x20"
  with True show ?thesis by (simp add: cpu6502_step_def)
next
  case False
  assume inv: "st30 cpu = 0x20"
  define opcode where "opcode = fst (cpu_read (cpu\<lparr>page_crossed := False, pc := pc cpu + 1\<rparr>) (pc cpu))"
  define cpu1 where "cpu1 = (snd (cpu_read (cpu\<lparr>page_crossed := False, pc := pc cpu + 1\<rparr>) (pc cpu)))
     \<lparr>cycles := cycles cpu + ucast (opcode_cycles ! unat opcode)\<rparr>"
  have step: "cpu6502_step cpu = (opcode_table ! unat opcode) cpu1"
    using False by (simp add: cpu6502_step_def Let_def split_beta opcode_def cpu1_def)
  have "st30 cpu1 = 0x20" using inv by (simp add: cpu1_def)
  moreover have "keeps_st30 (opcode_table ! unat opcode :: 'b cpu6502_t \<Rightarrow> 'b cpu6502_t)"
    using keeps_st30_table unat_u8_less [of opcode]
    by (auto simp add: list_all_length length_opcode_table)
  ultimately show ?thesis by (simp add: step keeps_st30_def)
qed

lemma irq_nmi_reset_st30:
  "st30 cpu = 0x20 \<Longrightarrow> st30 (cpu6502_irq cpu) = 0x20"
  "st30 cpu = 0x20 \<Longrightarrow> st30 (cpu6502_nmi cpu) = 0x20"
  "st30 cpu = 0x20 \<Longrightarrow> st30 (cpu6502_reset cpu) = 0x20"
  "st30 (cpu6502_init cpu rd wr ctx) = 0x20"
    apply (simp_all add: cpu6502_irq_def cpu6502_nmi_def cpu6502_reset_def cpu6502_init_def Let_def split_beta)
   apply (simp_all add: st30_def cpu_flag_defs or_and30)
  done



section \<open>Decimal mode arithmetic\<close>

lemma get_set_flag_same: "f \<noteq> 0 \<Longrightarrow> cpu_get_flag (cpu_set_flag cpu f b) f = b"
  by (simp add: cpu_get_flag_def cpu_set_flag_def and.assoc)

lemma get_set_flag_other:
  "f AND g = 0 \<Longrightarrow> cpu_get_flag (cpu_set_flag cpu f b) g = cpu_get_flag cpu g"
proof -
  assume d: "f AND g = 0"
  have 1: "(s OR f) AND g = s AND g" for s :: u8
    using d by (simp add: bit.conj_disj_distrib2)
  have "NOT f AND g = (NOT f AND g) OR (f AND g)" using d by simp
  also have "\<dots> = (NOT f OR f) AND g" by (simp only: bit.conj_disj_distrib2)
  also have "\<dots> = g" by simp
  finally have 2: "(s AND NOT f) AND g = s AND g" for s :: u8
    by (simp add: and.assoc)
  show ?thesis by (simp add: cpu_get_flag_def cpu_set_flag_def 1 2)
qed

lemma get_flag_upd_a [simp]: "cpu_get_flag (cpu\<lparr>a := va\<rparr>) f = cpu_get_flag cpu f"
  by (simp add: cpu_get_flag_def)

lemma a_set_flag [simp]: "a (cpu_set_flag cpu f b) = a cpu"
  by (simp add: cpu_set_flag_def)

lemma int_bit7: "((k :: int) AND 0x80 \<noteq> 0) = bit k 7"
  using and_exp_eq_0_iff_not_bit [of k 7] by simp
lemma int_and_and_bit7: "((X :: int) AND Y AND 0x80 \<noteq> 0) = (bit X 7 \<and> bit Y 7)"
proof -
  have "X AND Y AND 0x80 = (X AND Y) AND 0x80" by (simp only: and.assoc)
  then show ?thesis by (simp only: int_bit7 bit_and_iff)
qed
lemma sbc_v_bits:
  "((A XOR M) AND (A XOR B) AND 0x80 \<noteq> (0 :: int))
     = (bit A 7 \<noteq> bit M 7 \<and> bit A 7 \<noteq> bit B 7)"
  by (simp only: int_and_and_bit7 bit_xor_iff) 
lemma adc_v_bits:
  "(NOT (A XOR M) AND (A XOR push_bit 4 h) AND 0x80 \<noteq> (0 :: int))
     = (bit A 7 = bit M 7 \<and> bit A 7 \<noteq> bit (h * 16) 7)"
proof -
  have "push_bit 4 h = h * 16" by (simp add: push_bit_eq_mult)
  then show ?thesis
    by (simp only: int_and_and_bit7 bit_not_iff bit_xor_iff possible_bit_int simp_thms)
qed
lemma int_and_15: "(k :: int) AND 15 = k mod 16"
  using take_bit_eq_mask [of 4 k] by (simp add: take_bit_eq_mod mask_eq_exp_minus_1)

lemma int_drop_4: "drop_bit 4 (k :: int) = k div 16"
  by (simp add: drop_bit_eq_div)

lemma int_push_or: "push_bit 4 (h :: int) OR (l mod 16) = h * 16 + l mod 16"
proof -
  have "push_bit 4 h + take_bit 4 l = push_bit 4 h OR take_bit 4 l"
    by (rule disjunctive_add) (auto simp: bit_simps)
  then show ?thesis by (simp add: take_bit_eq_mod push_bit_eq_mult)
qed
lemma u8_bit7: "((k :: u8) AND 0x80 \<noteq> 0) = bit k 7"
  using and_exp_eq_0_iff_not_bit [of k 7] by simp

lemma u16_bit7: "((k :: u16) AND 0x80 \<noteq> 0) = bit k 7"
  using and_exp_eq_0_iff_not_bit [of k 7] by simp

lemma u16_bit8: "((k :: u16) AND 0x100 \<noteq> 0) = bit k 8"
  using and_exp_eq_0_iff_not_bit [of k 8] by simp

lemma u16_low_zero: "((word_of_int k :: u16) AND 0xFF = 0) = (k mod 256 = 0)"
proof -
  have "(word_of_int k :: u16) AND 0xFF = take_bit 8 (word_of_int k)"
    using take_bit_eq_mask [of 8 "word_of_int k :: u16"] by (simp add: mask_eq_exp_minus_1)
  also have "\<dots> = word_of_int (take_bit 8 k)"
    by (simp add: take_bit_of_int)
  finally have "((word_of_int k :: u16) AND 0xFF = 0) = ((word_of_int (take_bit 8 k) :: u16) = 0)"
    by simp
  also have "\<dots> = (take_bit 8 k = 0)"
  proof -
    have b: "0 \<le> k mod 256" "k mod 256 < 256" by simp_all
    have "(65536 dvd k mod 256) = (k mod 256 = 0)"
    proof
      assume d: "65536 dvd k mod 256"
      show "k mod 256 = 0"
      proof (rule ccontr)
        assume "k mod 256 \<noteq> 0"
        with b have "0 < k mod 256" by simp
        with d have "65536 \<le> k mod 256" by (rule zdvd_imp_le)
        with b show False by simp
      qed
    qed simp
    then show ?thesis by (simp add: word_of_int_eq_0_iff take_bit_eq_mod)
  qed
  finally show ?thesis by (simp add: take_bit_eq_mod)
qed

lemma u8_of_int_bit7: "((word_of_int k :: u8) AND 0x80 \<noteq> 0) = bit k 7"
  by (simp add: u8_bit7 bit_word_of_int_iff)

lemma u16_of_int_bit7: "((word_of_int k :: u16) AND 0x80 \<noteq> 0) = bit k 7"
  by (simp add: u16_bit7 bit_word_of_int_iff)

lemma u16_of_int_bit8: "((word_of_int k :: u16) AND 0x100 \<noteq> 0) = bit k 8"
  by (simp add: u16_bit8 bit_word_of_int_iff)

lemma bcd_result: 
  "(word_of_int (push_bit 4 (h AND 0x0F) OR (l AND 0x0F)) :: u8) = word_of_int ((h mod 16) * 16 + l mod 16)"
  by (simp only: int_and_15 int_push_or)

lemma bcd_partial: 
  "((word_of_int (push_bit 4 h OR (l AND 0x0F)) :: u8) AND 0x80 \<noteq> 0) = bit (h * 16 + l mod 16) 7"
  by (simp only: int_and_15 int_push_or u8_of_int_bit7)


lemma flag_distinct [simp]:
  "CPU_FLAG_C \<noteq> 0" "CPU_FLAG_Z \<noteq> 0" "CPU_FLAG_V \<noteq> 0" "CPU_FLAG_N \<noteq> 0"
  "CPU_FLAG_Z AND CPU_FLAG_N = 0" "CPU_FLAG_Z AND CPU_FLAG_V = 0" "CPU_FLAG_Z AND CPU_FLAG_C = 0"
  "CPU_FLAG_N AND CPU_FLAG_Z = 0" "CPU_FLAG_N AND CPU_FLAG_V = 0" "CPU_FLAG_N AND CPU_FLAG_C = 0"
  "CPU_FLAG_V AND CPU_FLAG_Z = 0" "CPU_FLAG_V AND CPU_FLAG_N = 0" "CPU_FLAG_V AND CPU_FLAG_C = 0"
  "CPU_FLAG_C AND CPU_FLAG_Z = 0" "CPU_FLAG_C AND CPU_FLAG_N = 0" "CPU_FLAG_C AND CPU_FLAG_V = 0"
  "CPU_FLAG_C AND CPU_FLAG_D = 0" "CPU_FLAG_Z AND CPU_FLAG_D = 0" "CPU_FLAG_N AND CPU_FLAG_D = 0"
  "CPU_FLAG_V AND CPU_FLAG_D = 0"
  by (simp_all add: cpu_flag_defs)


lemma do_adc_decimal:
  assumes D: "cpu_get_flag cpu CPU_FLAG_D"
  shows "let A = uint (a cpu); M = uint val;
             C = (if cpu_get_flag cpu CPU_FLAG_C then 1 else 0);
             lo = A mod 16 + M mod 16 + C;
             lo_adj = (if lo > 9 then lo + 6 else lo);
             hi = A div 16 + M div 16 + (if lo_adj > 15 then 1 else 0);
             hi_adj = (if hi > 9 then hi + 6 else hi);
             r = do_adc cpu val
         in a r = word_of_int ((hi_adj mod 16) * 16 + lo_adj mod 16)
          \<and> cpu_get_flag r CPU_FLAG_Z = ((A + M + C) mod 256 = 0)
          \<and> cpu_get_flag r CPU_FLAG_N = bit (hi * 16 + lo_adj mod 16) 7
          \<and> cpu_get_flag r CPU_FLAG_V = (bit A 7 = bit M 7 \<and> bit A 7 \<noteq> bit (hi * 16) 7)
          \<and> cpu_get_flag r CPU_FLAG_C = (hi_adj > 15)"
proof -
  define A where "A = uint (a cpu)"
  define M where "M = uint val"
  define C :: int where "C = (if cpu_get_flag cpu CPU_FLAG_C then 1 else 0)"
  define lo where "lo = A mod 16 + M mod 16 + C"
  define lo_adj where "lo_adj = (if lo > 9 then lo + 6 else lo)"
  define hi where "hi = A div 16 + M div 16 + (if lo_adj > 15 then 1 else 0)"
  define hi_adj where "hi_adj = (if hi > 9 then hi + 6 else hi)"
  define zc where "zc = ((word_of_int (A + M + C) :: u16) AND 0xFF = 0)"
  define nc where "nc = ((word_of_int (push_bit 4 hi OR (lo_adj AND 0x0F)) :: u8) AND 0x80 \<noteq> 0)"
  define vc where "vc = (NOT (A XOR M) AND (A XOR push_bit 4 hi) AND 0x80 \<noteq> 0)"
  define res where "res = (word_of_int (push_bit 4 (hi_adj AND 0x0F) OR (lo_adj AND 0x0F)) :: u8)"
  have r: "do_adc cpu val =
      (cpu_set_flag (cpu_set_flag (cpu_set_flag (cpu_set_flag cpu CPU_FLAG_Z zc) CPU_FLAG_N nc)
         CPU_FLAG_V vc) CPU_FLAG_C (hi_adj > 15))\<lparr>a := res\<rparr>"
    unfolding do_adc_def Let_def res_def vc_def nc_def zc_def hi_adj_def hi_def lo_adj_def lo_def
      C_def M_def A_def int_and_15 int_drop_4
    by (simp only: D if_True)
  have 1: "a (do_adc cpu val) = word_of_int ((hi_adj mod 16) * 16 + lo_adj mod 16)"
    unfolding r res_def bcd_result by simp
  have 2: "cpu_get_flag (do_adc cpu val) CPU_FLAG_Z = ((A + M + C) mod 256 = 0)"
    by (simp only: r get_flag_upd_a get_set_flag_same get_set_flag_other flag_distinct zc_def u16_low_zero simp_thms)
  have 3: "cpu_get_flag (do_adc cpu val) CPU_FLAG_N = bit (hi * 16 + lo_adj mod 16) 7"
    by (simp only: r get_flag_upd_a get_set_flag_same get_set_flag_other flag_distinct nc_def bcd_partial simp_thms)
  have 4: "cpu_get_flag (do_adc cpu val) CPU_FLAG_V = (bit A 7 = bit M 7 \<and> bit A 7 \<noteq> bit (hi * 16) 7)"
    by (simp only: r get_flag_upd_a get_set_flag_same get_set_flag_other flag_distinct vc_def adc_v_bits simp_thms)
  have 5: "cpu_get_flag (do_adc cpu val) CPU_FLAG_C = (hi_adj > 15)"
    by (simp only: r get_flag_upd_a get_set_flag_same get_set_flag_other flag_distinct simp_thms)
  show ?thesis
    unfolding Let_def
    using 1 2 3 4 5
    unfolding hi_adj_def hi_def lo_adj_def lo_def C_def M_def A_def
    by (simp only: simp_thms)
qed

lemma int_bit8_neg: "- 256 \<le> k \<Longrightarrow> k < 256 \<Longrightarrow> bit (k :: int) 8 = (k < 0)"
proof -
  assume b: "- 256 \<le> k" "k < 256"
  have "k div 256 = (if k < 0 then - 1 else 0)"
  proof (cases "k < 0")
    case True
    have "(k + 256) div 256 = k div 256 + 1" by simp
    moreover from b True have "(k + 256) div 256 = 0" by simp
    ultimately have "k div 256 = - 1" by simp
    with True show ?thesis by simp
  next
    case False
    with b have "k div 256 = 0" by simp
    with False show ?thesis by simp
  qed
  then show ?thesis by (simp add: bit_iff_odd)
qed

lemma sbc_bin_range:
  "- 256 \<le> uint (p :: u8) - uint (q :: u8) - (if c then 0 else 1)"
  "uint (p :: u8) - uint (q :: u8) - (if c then 0 else 1) < 256"
proof -
  have lt: "uint p < 256" "uint q < 256"
    using uint_lt2p [of p] uint_lt2p [of q] by simp_all
  have ge: "0 \<le> uint p" "0 \<le> uint q" by simp_all
  show "- 256 \<le> uint p - uint q - (if c then 0 else 1)"
    using lt ge by (cases c; simp only: if_True if_False; arith)
  show "uint p - uint q - (if c then 0 else 1) < 256"
    using lt ge by (cases c; simp only: if_True if_False; arith)
qed

lemma sbc_bin_v:
  "((A XOR M) AND (A XOR uint (word_of_int k :: u16)) AND 0x80 \<noteq> (0 :: int))
     = (bit A 7 \<noteq> bit M 7 \<and> bit A 7 \<noteq> bit k 7)"
  by (simp only: sbc_v_bits) (simp add: bit_uint_iff bit_word_of_int_iff)

lemma do_sbc_decimal:
  assumes D: "cpu_get_flag cpu CPU_FLAG_D"
  shows "let A = uint (a cpu); M = uint val;
             B = (if cpu_get_flag cpu CPU_FLAG_C then 0 else 1);
             bin = A - M - B;
             lo = A mod 16 - M mod 16 - B;
             lo_adj = (if lo < 0 then (lo - 6) mod 16 - 16 else lo);
             hi = A div 16 - M div 16 + (if lo_adj < 0 then - 1 else 0);
             hi_adj = (if hi < 0 then hi - 6 else hi);
             r = do_sbc cpu val
         in a r = word_of_int ((hi_adj mod 16) * 16 + lo_adj mod 16)
          \<and> cpu_get_flag r CPU_FLAG_C = (0 \<le> bin)
          \<and> cpu_get_flag r CPU_FLAG_Z = (bin mod 256 = 0)
          \<and> cpu_get_flag r CPU_FLAG_N = bit bin 7
          \<and> cpu_get_flag r CPU_FLAG_V = (bit A 7 \<noteq> bit M 7 \<and> bit A 7 \<noteq> bit bin 7)"
proof -
  define A where "A = uint (a cpu)"
  define M where "M = uint val"
  define B :: int where "B = (if cpu_get_flag cpu CPU_FLAG_C then 0 else 1)"
  define bin where "bin = A - M - B"
  define lo where "lo = A mod 16 - M mod 16 - B"
  define lo_adj where "lo_adj = (if lo < 0 then (lo - 6) mod 16 - 16 else lo)"
  define hi where "hi = A div 16 - M div 16 + (if lo_adj < 0 then - 1 else 0)"
  define hi_adj where "hi_adj = (if hi < 0 then hi - 6 else hi)"
  define cc where "cc = (\<not> ((word_of_int bin :: u16) AND 0x100 \<noteq> 0))"
  define zc where "zc = ((word_of_int bin :: u16) AND 0xFF = 0)"
  define nc where "nc = ((word_of_int bin :: u16) AND 0x80 \<noteq> 0)"
  define vc where "vc = ((A XOR M) AND (A XOR uint (word_of_int bin :: u16)) AND 0x80 \<noteq> 0)"
  define res where "res = (word_of_int (push_bit 4 (hi_adj AND 0x0F) OR (lo_adj AND 0x0F)) :: u8)"
  have r: "do_sbc cpu val =
      (cpu_set_flag (cpu_set_flag (cpu_set_flag (cpu_set_flag cpu CPU_FLAG_C cc) CPU_FLAG_Z zc)
         CPU_FLAG_N nc) CPU_FLAG_V vc)\<lparr>a := res\<rparr>"
    unfolding do_sbc_def Let_def res_def vc_def nc_def zc_def cc_def hi_adj_def hi_def lo_adj_def lo_def
      bin_def B_def M_def A_def int_and_15 int_drop_4
    by (simp only: D if_True)
  have range: "- 256 \<le> bin" "bin < 256"
    unfolding bin_def B_def A_def M_def by (rule sbc_bin_range)+
  have 1: "a (do_sbc cpu val) = word_of_int ((hi_adj mod 16) * 16 + lo_adj mod 16)"
    unfolding r res_def bcd_result by simp
  have "cpu_get_flag (do_sbc cpu val) CPU_FLAG_C = (\<not> bit bin 8)"
    by (simp only: r get_flag_upd_a get_set_flag_same get_set_flag_other flag_distinct cc_def u16_of_int_bit8 simp_thms)
  then have 2: "cpu_get_flag (do_sbc cpu val) CPU_FLAG_C = (0 \<le> bin)"
    using int_bit8_neg [OF range] by auto
  have 3: "cpu_get_flag (do_sbc cpu val) CPU_FLAG_Z = (bin mod 256 = 0)"
    by (simp only: r get_flag_upd_a get_set_flag_same get_set_flag_other flag_distinct zc_def u16_low_zero simp_thms)
  have 4: "cpu_get_flag (do_sbc cpu val) CPU_FLAG_N = bit bin 7"
    by (simp only: r get_flag_upd_a get_set_flag_same get_set_flag_other flag_distinct nc_def u16_of_int_bit7 simp_thms)
  have 5: "cpu_get_flag (do_sbc cpu val) CPU_FLAG_V = (bit A 7 \<noteq> bit M 7 \<and> bit A 7 \<noteq> bit bin 7)"
    by (simp only: r get_flag_upd_a get_set_flag_same get_set_flag_other flag_distinct vc_def sbc_bin_v simp_thms)
  show ?thesis
    unfolding Let_def
    using 1 2 3 4 5
    unfolding hi_adj_def hi_def lo_adj_def lo_def bin_def B_def M_def A_def
    by (simp only: simp_thms)
qed

section \<open>Decimal mode of ADC and SBC\<close>

text \<open>
  C1.  With the D flag set and any operand byte \<open>val\<close>, \<^verbatim>\<open>do_adc\<close> adjusts the accumulator
  nibble by nibble: the low-nibble sum gets 6 added when it exceeds 9, the high-nibble sum
  (with the carry out of the low nibble) gets 6 added when it exceeds 9, and the result is
  made of the low four bits of each.  Z is set from the 8-bit binary sum \<open>A + M + C\<close>, N
  and V from the high nibble before its adjustment, C from the high nibble after it.
  \<^verbatim>\<open>do_sbc\<close> adjusts the accumulator nibble by nibble in the same way (subtracting 6 on a
  borrow), and sets C, Z, N and V from the binary difference \<open>A - M - (1 - C)\<close> alone.
\<close>

theorem decimal_mode_adc_sbc:
  assumes "cpu_get_flag cpu CPU_FLAG_D"
  shows "(let A = uint (a cpu); M = uint val;
              C = (if cpu_get_flag cpu CPU_FLAG_C then 1 else 0);
              lo = A mod 16 + M mod 16 + C;
              lo_adj = (if lo > 9 then lo + 6 else lo);
              hi = A div 16 + M div 16 + (if lo_adj > 15 then 1 else 0);
              hi_adj = (if hi > 9 then hi + 6 else hi);
              r = do_adc cpu val
          in a r = word_of_int ((hi_adj mod 16) * 16 + lo_adj mod 16)
           \<and> cpu_get_flag r CPU_FLAG_Z = ((A + M + C) mod 256 = 0)
           \<and> cpu_get_flag r CPU_FLAG_N = bit (hi * 16 + lo_adj mod 16) 7
           \<and> cpu_get_flag r CPU_FLAG_V = (bit A 7 = bit M 7 \<and> bit A 7 \<noteq> bit (hi * 16) 7)
           \<and> cpu_get_flag r CPU_FLAG_C = (hi_adj > 15))
       \<and> (let A = uint (a cpu); M = uint val;
              B = (if cpu_get_flag cpu CPU_FLAG_C then 0 else 1);
              bin = A - M - B;
              lo = A mod 16 - M mod 16 - B;
              lo_adj = (if lo < 0 then (lo - 6) mod 16 - 16 else lo);
              hi = A div 16 - M div 16 + (if lo_adj < 0 then - 1 else 0);
              hi_adj = (if hi < 0 then hi - 6 else hi);
              r = do_sbc cpu val
          in a r = word_of_int ((hi_adj mod 16) * 16 + lo_adj mod 16)
           \<and> cpu_get_flag r CPU_FLAG_C = (0 \<le> bin)
           \<and> cpu_get_flag r CPU_FLAG_Z = (bin mod 256 = 0)
           \<and> cpu_get_flag r CPU_FLAG_N = bit bin 7
           \<and> cpu_get_flag r CPU_FLAG_V = (bit A 7 \<noteq> bit M 7 \<and> bit A 7 \<noteq> bit bin 7))"
    (is "?adc \<and> ?sbc")
proof
  show ?adc by (rule do_adc_decimal [OF assms])
next
  show ?sbc by (rule do_sbc_decimal [OF assms])
qed

theorem decimal_mode_adc_sbc_witness:
  "cpu_get_flag bcd_example CPU_FLAG_D
   \<and> a (do_adc bcd_example 0x27) = 0x42 \<and> \<not> cpu_get_flag (do_adc bcd_example 0x27) CPU_FLAG_C
   \<and> \<not> cpu_get_flag (do_adc bcd_example 0x27) CPU_FLAG_Z
   \<and> a (do_sbc bcd_example 0x27) = 0x87 \<and> \<not> cpu_get_flag (do_sbc bcd_example 0x27) CPU_FLAG_C
   \<and> cpu_get_flag (do_sbc bcd_example 0x27) CPU_FLAG_N"
proof -
  have d: "cpu_get_flag bcd_example CPU_FLAG_D"
    by (simp add: bcd_example_def flat_cpu_def cpu_get_flag_def CPU_FLAG_D_def)
  have c: "\<not> cpu_get_flag bcd_example CPU_FLAG_C" "a bcd_example = 0x15"
    by (simp_all add: bcd_example_def flat_cpu_def cpu_get_flag_def CPU_FLAG_C_def)
  show ?thesis
    using d decimal_mode_adc_sbc [where val = "0x27", OF d]
    by (simp add: c Let_def bit_iff_odd)
qed


section \<open>Cycle accounting of one instruction\<close>





section \<open>Bits 5 and 4 of the status register\<close>

lemma plp_example_step: "cpu6502_t.status (cpu6502_step plp_example) = 0xEF"
  by (simp add: plp_example_def flat_cpu_def cpu6502_step_def cpu_read_def bus_flat_read_def
      opcode_table_def opcode_cycles_def op_plp_def cpu_pull_def Let_def
      CPU_FLAG_U_def CPU_FLAG_B_def)

text \<open>
  C4.  From every CPU state whose status register has bit 5 set and bit 4 clear, the
  register still has bit 5 set and bit 4 clear after \<^verbatim>\<open>cpu6502_step\<close> (whatever the opcode
  and whatever the bus returns, \<^verbatim>\<open>PLP\<close> and \<^verbatim>\<open>RTI\<close> included), after \<^verbatim>\<open>cpu6502_irq\<close>, after
  \<^verbatim>\<open>cpu6502_nmi\<close> and after \<^verbatim>\<open>cpu6502_reset\<close>; and after \<^verbatim>\<open>cpu6502_init\<close> from any state
  at all.
\<close>

theorem status_bits_5_and_4:
  assumes "bit (cpu6502_t.status cpu) 5" and "\<not> bit (cpu6502_t.status cpu) 4"
  shows "bit (cpu6502_t.status (cpu6502_step cpu)) 5 \<and> \<not> bit (cpu6502_t.status (cpu6502_step cpu)) 4
       \<and> bit (cpu6502_t.status (cpu6502_irq cpu)) 5 \<and> \<not> bit (cpu6502_t.status (cpu6502_irq cpu)) 4
       \<and> bit (cpu6502_t.status (cpu6502_nmi cpu)) 5 \<and> \<not> bit (cpu6502_t.status (cpu6502_nmi cpu)) 4
       \<and> bit (cpu6502_t.status (cpu6502_reset cpu)) 5 \<and> \<not> bit (cpu6502_t.status (cpu6502_reset cpu)) 4
       \<and> bit (cpu6502_t.status (cpu6502_init any_cpu rd wr ctx)) 5
       \<and> \<not> bit (cpu6502_t.status (cpu6502_init any_cpu rd wr ctx)) 4"
proof -
  have inv: "st30 cpu = 0x20" using assms by (simp add: st30_bits)
  show ?thesis
    using cpu6502_step_st30 [OF inv] irq_nmi_reset_st30(1-3) [OF inv]
      irq_nmi_reset_st30(4) [of any_cpu rd wr ctx]
    by (simp add: st30_bits)
qed

theorem status_bits_5_and_4_witness:
  "bit (cpu6502_t.status plp_example) 5 \<and> \<not> bit (cpu6502_t.status plp_example) 4
   \<and> cpu6502_t.status (cpu6502_step plp_example) = 0xEF
   \<and> bit (cpu6502_t.status (cpu6502_step plp_example)) 5
   \<and> \<not> bit (cpu6502_t.status (cpu6502_step plp_example)) 4"
proof -
  have s: "cpu6502_t.status plp_example = 0x24"
    by (simp add: plp_example_def flat_cpu_def)
  have h5: "bit (cpu6502_t.status plp_example) 5" and h4: "\<not> bit (cpu6502_t.status plp_example) 4"
    unfolding s by (simp_all add: bit_iff_odd)
  show ?thesis
    using h5 h4 status_bits_5_and_4 [OF h5 h4] plp_example_step by simp
qed

section \<open>Properties of the PPU, the system bus and the frame loop\<close>

lemma u8_bit2: "((k :: u8) AND 0x04 \<noteq> 0) = bit k 2"
  using and_exp_eq_0_iff_not_bit [of k 2] by simp

lemma u8_bit0: "((k :: u8) AND 0x01 \<noteq> 0) = bit k 0"
  using and_exp_eq_0_iff_not_bit [of k 0] by simp

lemma u8_and_1: "(k :: u8) AND 1 = (if bit k 0 then 1 else 0)"
  by (simp add: and_one_eq bit_0 mod_2_eq_odd)

lemma nes_bus_read_keeps:
  "dma_pending (snd (nes_bus_read nes addr)) = dma_pending nes"
  "frame (ppu (snd (nes_bus_read nes addr))) = frame (ppu nes)"
  by (simp_all add: nes_bus_read_def ppu_cpu_read_def Let_def split_beta)

lemma halted_body_idle:
  "halted m \<Longrightarrow> \<not> dma_pending (bus_ctx m) \<Longrightarrow> nes_step_frame_body m = m"
  by (simp add: nes_step_frame_body_def cpu6502_step_def Let_def)

lemma halted_loop_never_leaves:
  "halted m \<Longrightarrow> \<not> dma_pending (bus_ctx m) \<Longrightarrow> frame (ppu (bus_ctx m)) = start_frame
     \<Longrightarrow> nes_step_frame_loop fuel start_frame m = None"
  by (induction fuel) (simp_all add: halted_body_idle)

lemma illegal_opcode_dispatch:
  "opcode \<in> set illegal_opcodes \<Longrightarrow>
     (opcode_table ! unat opcode :: 'b cpu6502_t \<Rightarrow> 'b cpu6502_t) = op_ill
       \<and> opcode_cycles ! unat opcode = 0"
  by (auto simp add: illegal_opcodes_def opcode_table_def opcode_cycles_def)

lemma illegal_opcode_step:
  assumes "read m = nes_bus_read" "\<not> halted m"
    and "fst (nes_bus_read (bus_ctx m) (pc m)) \<in> set illegal_opcodes"
  shows "cpu6502_step m =
           m\<lparr>page_crossed := False, pc := pc m + 1, halted := True,
              bus_ctx := snd (nes_bus_read (bus_ctx m) (pc m))\<rparr>"
  using assms illegal_opcode_dispatch [OF assms(3), where ?'b = nes_t]
  by (simp add: cpu6502_step_def cpu_read_def Let_def split_beta op_ill_def)

lemma nes_init_facts:
  "read (nes_init loaded) = nes_bus_read"
  "write (nes_init loaded) = nes_bus_write"
  "\<not> halted (nes_init loaded)"
  "a (nes_init loaded) = 0" "sp (nes_init loaded) = 0xFD"
  "cycles (nes_init loaded) = 7"
  "cpu6502_t.status (nes_init loaded) = 0x24"
  "cart (bus_ctx (nes_init loaded)) = loaded"
  "ppu (bus_ctx (nes_init loaded)) = ppu_init"
  "\<not> dma_pending (bus_ctx (nes_init loaded))"
  "\<not> controller_strobe (bus_ctx (nes_init loaded))"
  "controller_shift (bus_ctx (nes_init loaded)) = (\<lambda>i. 0)"
  "pc (nes_init loaded) = push_bit 8 (ucast (cartridge_cpu_read loaded 0xFFFD))
                           OR ucast (cartridge_cpu_read loaded 0xFFFC)"
  by (simp_all add: nes_init_def cpu6502_init_def cpu6502_reset_def cpu_read_def nes_bus_read_def
      Let_def CPU_FLAG_U_def CPU_FLAG_I_def)

lemma rom_read:
  "cartridge_cpu_read (rom_image bytes) addr =
     (if addr \<ge> 0x8000 then (case map_of bytes (unat (addr AND 0x3FFF)) of Some b \<Rightarrow> b | None \<Rightarrow> 0)
      else 0)"
  by (simp add: cartridge_cpu_read_def rom_image_def)

lemma illegal_rom_pc: "pc (nes_init illegal_rom) = 0x8000"
  by (simp add: nes_init_facts illegal_rom_def rom_read)

lemma ppu_step_signal_only_at_vblank:
  "fst (ppu_step c p) \<Longrightarrow> scanline p = 241 \<and> cycle p = 1 \<and> nmi_output p"
  by (simp add: ppu_step_def Let_def split: if_splits)

lemma ppuctrl_write_effect:
  assumes "\<not> nmi_output (ppu nes)" "nmi_occurred (ppu nes)" "bit val 7"
  shows "nes_bus_write nes 0x2000 val =
           nes\<lparr>ppu := (ppu nes)\<lparr>ctrl := val, nmi_output := True,
                    t := (t (ppu nes) AND 0xF3FF) OR push_bit 10 (ucast (val AND 0x03))\<rparr>\<rparr>"
proof -
  have e: "q\<lparr>nmi_occurred := True\<rparr> = q" if "nmi_occurred q" for q :: ppu_t
    using that by (cases q) simp
  have c: "nes\<lparr>cart := cart nes\<rparr> = nes" by (cases nes) simp
  show ?thesis
    using assms
    by (simp add: nes_bus_write_def ppu_cpu_write_def Let_def u8_bit7 e c)
qed

lemma ppu_step_idle:
  "241 < scanline p \<Longrightarrow> scanline p \<le> 260 \<Longrightarrow> cycle p < 340
     \<Longrightarrow> ppu_step c p = (False, p\<lparr>cycle := cycle p + 1\<rparr>)"
  by (simp add: ppu_step_def Let_def)

lemma ppu_tick_idle:
  "241 < scanline (ppu (bus_ctx m)) \<Longrightarrow> scanline (ppu (bus_ctx m)) \<le> 260
     \<Longrightarrow> cycle (ppu (bus_ctx m)) < 340
     \<Longrightarrow> ppu_tick m =
           m\<lparr>bus_ctx := (bus_ctx m)\<lparr>ppu := (ppu (bus_ctx m))\<lparr>cycle := cycle (ppu (bus_ctx m)) + 1\<rparr>\<rparr>\<rparr>"
  by (simp add: ppu_tick_def ppu_step_idle Let_def)

lemma ppu_ticks_idle:
  "241 < scanline (ppu (bus_ctx m)) \<Longrightarrow> scanline (ppu (bus_ctx m)) \<le> 260
     \<Longrightarrow> cycle (ppu (bus_ctx m)) + int n \<le> 340
     \<Longrightarrow> (ppu_tick ^^ n) m =
           m\<lparr>bus_ctx := (bus_ctx m)\<lparr>ppu := (ppu (bus_ctx m))\<lparr>cycle := cycle (ppu (bus_ctx m)) + int n\<rparr>\<rparr>\<rparr>"
proof (induction n arbitrary: m)
  case 0
  have "q\<lparr>cycle := cycle q\<rparr> = q" for q :: ppu_t by (cases q) simp
  moreover have "s\<lparr>ppu := ppu s\<rparr> = s" for s :: nes_t by (cases s) simp
  moreover have "m\<lparr>bus_ctx := bus_ctx m\<rparr> = m" by (cases m) simp
  ultimately show ?case by simp
next
  case (Suc n)
  have "(ppu_tick ^^ Suc n) m = (ppu_tick ^^ n) (ppu_tick m)"
    by (simp add: funpow_swap1)
  also have "ppu_tick m =
      m\<lparr>bus_ctx := (bus_ctx m)\<lparr>ppu := (ppu (bus_ctx m))\<lparr>cycle := cycle (ppu (bus_ctx m)) + 1\<rparr>\<rparr>\<rparr>"
    using Suc.prems by (intro ppu_tick_idle) simp_all
  finally show ?case
    using Suc.prems by (simp add: Suc.IH add.assoc)
qed

lemma nmi_entry_effect:
  "sp (cpu6502_nmi cpu) = sp cpu - 3"
  "cycles (cpu6502_nmi cpu) = cycles cpu + 7"
  by (simp_all add: cpu6502_nmi_def cpu_push16_def cpu_push_def cpu_write_def cpu_read_def
      cpu_set_flag_def Let_def split_beta)

lemma ppuctrl_rom_pc: "pc (nes_init ppuctrl_rom) = 0x8000"
  by (simp add: nes_init_facts ppuctrl_rom_def rom_read)

lemma ppuctrl_example_facts:
  "read ppuctrl_example = nes_bus_read"
  "write ppuctrl_example = nes_bus_write"
  "\<not> halted ppuctrl_example"
  "pc ppuctrl_example = 0x8000"
  "a ppuctrl_example = 0x80"
  "sp ppuctrl_example = 0xFD"
  "cycles ppuctrl_example = 7"
  "cart (bus_ctx ppuctrl_example) = ppuctrl_rom"
  "\<not> dma_pending (bus_ctx ppuctrl_example)"
  "\<not> nmi_output (ppu (bus_ctx ppuctrl_example))"
  "nmi_occurred (ppu (bus_ctx ppuctrl_example))"
  "scanline (ppu (bus_ctx ppuctrl_example)) = 245"
  "cycle (ppu (bus_ctx ppuctrl_example)) = 0"
  by (simp_all add: ppuctrl_example_def Let_def nes_init_facts(1-12) ppuctrl_rom_pc)

lemma ppuctrl_rom_fetch:
  "cart nes = ppuctrl_rom \<Longrightarrow> nes_bus_read nes 0x8000 = (0x8D, nes)"
  "cart nes = ppuctrl_rom \<Longrightarrow> nes_bus_read nes 0x8001 = (0x00, nes)"
  "cart nes = ppuctrl_rom \<Longrightarrow> nes_bus_read nes 0x8002 = (0x20, nes)"
  by (simp_all add: nes_bus_read_def ppuctrl_rom_def rom_read)

lemma ppuctrl_example_step:
  "cpu6502_step ppuctrl_example =
     ppuctrl_example\<lparr>page_crossed := False, pc := 0x8003, cycles := 11,
        bus_ctx := nes_bus_write (bus_ctx ppuctrl_example) 0x2000 0x80\<rparr>"
  by (simp add: cpu6502_step_def cpu_read_def cpu_write_def addr_abs_def op_sta_abs_def
      ppuctrl_example_facts ppuctrl_rom_fetch opcode_table_def opcode_cycles_def Let_def)

lemma ppu_step_vblank_line:
  "scanline p = 240 \<Longrightarrow> cycle p = 340 \<Longrightarrow>
     ppu_step c p = (False, p\<lparr>cycle := 0, scanline := 241\<rparr>)"
  "scanline p = 241 \<Longrightarrow> cycle p = 0 \<Longrightarrow>
     ppu_step c p = (False, p\<lparr>cycle := 1\<rparr>)"
  "scanline p = 241 \<Longrightarrow> cycle p = 1 \<Longrightarrow>
     ppu_step c p = (nmi_output p, p\<lparr>nmi_occurred := True, status := status p OR 0x80, cycle := 2\<rparr>)"
  by (simp_all add: ppu_step_def Let_def)

lemma button_a_example_facts:
  "controller button_a_example 0 = 0x01"
  "controller_shift button_a_example 0 = 0"
  "\<not> controller_strobe button_a_example"
  by (simp_all add: button_a_example_def nes_init_facts)

lemma controller_reads_shift:
  "fst (controller_reads n nes) =
     map (\<lambda>k. if bit (controller_shift nes 0) k then 1 else 0) [0..<n]"
proof (induction n arbitrary: nes)
  case 0
  show ?case by simp
next
  case (Suc n)
  define nes1 where "nes1 =
    nes\<lparr>controller_shift := (controller_shift nes)(0 := drop_bit 1 (controller_shift nes 0))\<rparr>"
  have rd: "nes_bus_read nes 0x4016 = (if bit (controller_shift nes 0) 0 then 1 else 0, nes1)"
    by (simp add: nes_bus_read_def Let_def u8_and_1 nes1_def)
  have sh: "bit (controller_shift nes1 0) k = bit (controller_shift nes 0) (Suc k)" for k
    by (simp add: nes1_def bit_drop_bit_eq)
  have "fst (controller_reads (Suc n) nes) =
      (if bit (controller_shift nes 0) 0 then 1 else 0) # fst (controller_reads n nes1)"
    by (simp add: rd split_beta)
  also have "fst (controller_reads n nes1) =
      map (\<lambda>k. if bit (controller_shift nes 0) (Suc k) then 1 else 0) [0..<n]"
    by (simp add: Suc.IH sh)
  also have "\<dots> = map (\<lambda>k. if bit (controller_shift nes 0) k then 1 else 0) (map Suc [0..<n])"
    by (simp add: comp_def)
  finally show ?case
    by (simp add: map_Suc_upt upt_conv_Cons del: upt_Suc)
qed

lemma strobe_high_example_facts:
  "controller_strobe strobe_high_example"
  "controller strobe_high_example 0 = 0xA5"
  by (simp_all add: strobe_high_example_def)

section \<open>Frame loop with a halted CPU\<close>

text \<open>
  C3, on the code.  When the CPU of the system is not halted, no OAM DMA is pending and
  the opcode at \<^verbatim>\<open>pc\<close> is an illegal one (it dispatches to \<^verbatim>\<open>op_ill\<close>), \<^verbatim>\<open>nes_step_frame\<close>
  does not return: whatever the fuel, the frame loop has not left.  The first iteration halts
  the CPU and charges no cycle, so the PPU is not stepped; every later iteration finds
  the CPU halted and changes nothing, and the frame counter never advances.
\<close>

theorem illegal_opcode_frame_never_returns:
  assumes "read m = nes_bus_read" and "\<not> halted m" and "\<not> dma_pending (bus_ctx m)"
    and "fst (nes_bus_read (bus_ctx m) (pc m)) \<in> set illegal_opcodes"
  shows "nes_step_frame fuel m = None"
proof (cases fuel)
  case 0
  then show ?thesis by (simp add: nes_step_frame_def)
next
  case (Suc n)
  define m1 where "m1 = m\<lparr>page_crossed := False, pc := pc m + 1, halted := True,
      bus_ctx := snd (nes_bus_read (bus_ctx m) (pc m))\<rparr>"
  have body: "nes_step_frame_body m = m1"
    using assms(3) illegal_opcode_step [OF assms(1,2,4)]
    by (simp add: nes_step_frame_body_def Let_def m1_def)
  have "nes_step_frame_loop n (frame (ppu (bus_ctx m))) m1 = None"
    using assms(3) by (intro halted_loop_never_leaves) (simp_all add: m1_def nes_bus_read_keeps)
  with Suc body show ?thesis by (simp add: nes_step_frame_def)
qed

theorem illegal_opcode_frame_never_returns_witness:
  "read (nes_init illegal_rom) = nes_bus_read \<and> \<not> halted (nes_init illegal_rom)
   \<and> \<not> dma_pending (bus_ctx (nes_init illegal_rom))
   \<and> fst (nes_bus_read (bus_ctx (nes_init illegal_rom)) (pc (nes_init illegal_rom))) = 0x02
   \<and> (\<forall>fuel. nes_step_frame fuel (nes_init illegal_rom) = None)"
proof -
  have op: "fst (nes_bus_read (bus_ctx (nes_init illegal_rom)) (pc (nes_init illegal_rom))) = 0x02"
    by (simp add: illegal_rom_pc nes_bus_read_def nes_init_facts)
       (simp add: illegal_rom_def rom_read)
  have ill: "fst (nes_bus_read (bus_ctx (nes_init illegal_rom)) (pc (nes_init illegal_rom)))
      \<in> set illegal_opcodes"
    unfolding op by (simp add: illegal_opcodes_def)
  show ?thesis
    using illegal_opcode_frame_never_returns
      [OF nes_init_facts(1) nes_init_facts(3) nes_init_facts(10) ill]
    by (simp add: nes_init_facts(1,3,10) op)
qed

section \<open>Reads of PPUDATA\<close>

text \<open>
  C5.  For every PPU state, a CPU read of \<^verbatim>\<open>$2007\<close> (register 7) with \<open>v < 0x3F00\<close> returns
  the data buffer and refills the buffer from \<^verbatim>\<open>ppu_bus_read(v)\<close>; with \<open>v \<ge> 0x3F00\<close> it
  returns \<^verbatim>\<open>ppu_bus_read(v)\<close> itself and refills the buffer from \<^verbatim>\<open>ppu_bus_read(v - 0x1000)\<close>.
  In both cases \<open>v\<close> is then incremented by 32 if bit 2 of PPUCTRL is set and by 1
  otherwise.  The system bus routes address \<^verbatim>\<open>$2007\<close> to that register.
\<close>

theorem ppudata_read_buffered:
  "ppu_cpu_read c p 7 =
     (if v p < 0x3F00 then data_buf p else ppu_bus_read c p (v p),
      p\<lparr>data_buf := (if v p < 0x3F00 then ppu_bus_read c p (v p)
                       else ppu_bus_read c p (v p - 0x1000)),
        v := v p + (if bit (ctrl p) 2 then 32 else 1)\<rparr>)
   \<and> nes_bus_read nes 0x2007 =
     (fst (ppu_cpu_read (cart nes) (ppu nes) 7),
      nes\<lparr>ppu := snd (ppu_cpu_read (cart nes) (ppu nes) 7)\<rparr>)"
  by (simp add: ppu_cpu_read_def nes_bus_read_def Let_def u8_bit2 split_beta)

section \<open>NMI at the start of vertical blank\<close>

text \<open>
  C6.  From every PPU state with \<^verbatim>\<open>nmi_output\<close> set that stands at scanline 240, cycle
  340, running \<^verbatim>\<open>ppu_step\<close> until the PPU stands at scanline 241, cycle 2 takes three
  ticks (with any fuel of at least 3).  The signals they return are false, false, true:
  the NMI signal is returned once, by the tick executed at scanline 241, cycle 1.  The
  first two ticks leave \<^verbatim>\<open>nmi_occurred\<close> and the status register alone; the third sets
  \<^verbatim>\<open>nmi_occurred\<close> and bit 7 of the status register.
\<close>

theorem vblank_nmi_fires_once:
  assumes "nmi_output p" and "scanline p = 240" and "cycle p = 340"
  shows "let q1 = snd (ppu_step c p); q2 = snd (ppu_step c q1); q3 = snd (ppu_step c q2)
         in ppu_run_until (3 + k) 241 2 c p = Some ([False, False, True], q3)
          \<and> \<not> fst (ppu_step c p) \<and> scanline q1 = 241 \<and> cycle q1 = 0
          \<and> \<not> fst (ppu_step c q1) \<and> scanline q2 = 241 \<and> cycle q2 = 1
          \<and> fst (ppu_step c q2) \<and> scanline q3 = 241 \<and> cycle q3 = 2
          \<and> nmi_occurred q2 = nmi_occurred p \<and> status q2 = status p
          \<and> nmi_occurred q3 \<and> status q3 = status p OR 0x80 \<and> bit (status q3) 7"
proof -
  define p1 where "p1 = p\<lparr>cycle := 0, scanline := 241\<rparr>"
  define p2 where "p2 = p1\<lparr>cycle := 1\<rparr>"
  define p3 where "p3 = p2\<lparr>nmi_occurred := True, status := status p2 OR 0x80, cycle := 2\<rparr>"
  have s1: "ppu_step c p = (False, p1)"
    using assms by (simp add: ppu_step_vblank_line p1_def)
  have s2: "ppu_step c p1 = (False, p2)"
    by (simp add: ppu_step_vblank_line p1_def p2_def)
  have s3: "ppu_step c p2 = (True, p3)"
    using assms by (simp add: ppu_step_vblank_line p1_def p2_def p3_def)
  have pos: "scanline p = 240" "scanline p1 = 241" "cycle p1 = 0" "scanline p2 = 241" "cycle p2 = 1"
    "scanline p3 = 241" "cycle p3 = 2"
    using assms by (simp_all add: p1_def p2_def p3_def)
  have "3 + k = Suc (Suc (Suc k))" by simp
  then have run: "ppu_run_until (3 + k) 241 2 c p = Some ([False, False, True], p3)"
    by (simp add: s1 s2 s3 pos)
  have flags: "nmi_occurred p2 = nmi_occurred p" "status p2 = status p"
    "nmi_occurred p3" "status p3 = status p OR 0x80"
    by (simp_all add: p1_def p2_def p3_def)
  have b7: "bit (status p3) 7"
    by (simp add: flags bit_or_iff)
  show ?thesis
    unfolding Let_def s1 s2 s3 snd_conv fst_conv
    using run pos flags b7 by simp
qed

theorem vblank_nmi_fires_once_witness:
  "nmi_output vblank_example \<and> scanline vblank_example = 240 \<and> cycle vblank_example = 340
   \<and> map_option fst (ppu_run_until 3 241 2 (rom_image []) vblank_example)
       = Some [False, False, True]"
proof -
  have h: "nmi_output vblank_example" "scanline vblank_example = 240" "cycle vblank_example = 340"
    by (simp_all add: vblank_example_def)
  show ?thesis
    using vblank_nmi_fires_once [OF h, where k = 0 and c = "rom_image []"]
    by (simp add: h Let_def)
qed

section \<open>Palette aliases\<close>

text \<open>
  C7, as the code has it.  For every byte \<open>b\<close>, cartridge and PPU state, writing \<open>b\<close> to
  palette address \<^verbatim>\<open>$3F00\<close> through the PPU bus and then reading \<^verbatim>\<open>$3F10\<close> returns the low
  six bits of \<open>b\<close> (\<open>b AND 0x3F\<close>), and so does writing at \<^verbatim>\<open>$3F10\<close> and reading at
  \<^verbatim>\<open>$3F00\<close>; the same holds for the pairs \<^verbatim>\<open>$3F04/$3F14\<close>, \<^verbatim>\<open>$3F08/$3F18\<close> and \<^verbatim>\<open>$3F0C/$3F1C\<close>.
\<close>

theorem palette_alias_readback:
  "ppu_bus_read (fst (ppu_bus_write c p 0x3F00 b)) (snd (ppu_bus_write c p 0x3F00 b)) 0x3F10 = b AND 0x3F
 \<and> ppu_bus_read (fst (ppu_bus_write c p 0x3F10 b)) (snd (ppu_bus_write c p 0x3F10 b)) 0x3F00 = b AND 0x3F
 \<and> ppu_bus_read (fst (ppu_bus_write c p 0x3F04 b)) (snd (ppu_bus_write c p 0x3F04 b)) 0x3F14 = b AND 0x3F
 \<and> ppu_bus_read (fst (ppu_bus_write c p 0x3F14 b)) (snd (ppu_bus_write c p 0x3F14 b)) 0x3F04 = b AND 0x3F
 \<and> ppu_bus_read (fst (ppu_bus_write c p 0x3F08 b)) (snd (ppu_bus_write c p 0x3F08 b)) 0x3F18 = b AND 0x3F
 \<and> ppu_bus_read (fst (ppu_bus_write c p 0x3F18 b)) (snd (ppu_bus_write c p 0x3F18 b)) 0x3F08 = b AND 0x3F
 \<and> ppu_bus_read (fst (ppu_bus_write c p 0x3F0C b)) (snd (ppu_bus_write c p 0x3F0C b)) 0x3F1C = b AND 0x3F
 \<and> ppu_bus_read (fst (ppu_bus_write c p 0x3F1C b)) (snd (ppu_bus_write c p 0x3F1C b)) 0x3F0C = b AND 0x3F"
  by (simp add: ppu_bus_read_def ppu_bus_write_def Let_def)

text \<open>
  C7 as stated says that the read returns exactly \<open>b\<close>.  A palette write keeps six bits:
  after \<^verbatim>\<open>$40\<close> is written to \<^verbatim>\<open>$3F00\<close>, the read of \<^verbatim>\<open>$3F10\<close> returns \<^verbatim>\<open>$00\<close>.
\<close>

theorem palette_readback_counterexample:
  "ppu_bus_read (fst (ppu_bus_write (rom_image []) ppu_init 0x3F00 0x40))
     (snd (ppu_bus_write (rom_image []) ppu_init 0x3F00 0x40)) 0x3F10 = 0x00"
  by (simp add: ppu_bus_read_def ppu_bus_write_def Let_def)

section \<open>PPUCTRL write while the vertical blank flag is set\<close>

text \<open>
  C8, on the code.  The PPU is in vertical blank with \<^verbatim>\<open>nmi_occurred\<close> set and
  \<^verbatim>\<open>nmi_output\<close> clear, and the CPU executes \<^verbatim>\<open>STA $2000\<close> with \<^verbatim>\<open>A = $80\<close>.  One iteration of
  the frame loop (the instruction and the twelve PPU ticks that follow it) stores the
  byte and sets \<^verbatim>\<open>nmi_output\<close>, \<^verbatim>\<open>nmi_occurred\<close> stays set, and the CPU goes on with the next
  instruction: \<^verbatim>\<open>pc\<close> advanced by 3, the stack pointer unchanged, 4 cycles charged.  An NMI
  entry would have lowered the stack pointer by 3 and charged 7 more cycles.
\<close>

theorem ppuctrl_write_no_nmi:
  "\<not> nmi_output (ppu (bus_ctx ppuctrl_example))
   \<and> nmi_occurred (ppu (bus_ctx ppuctrl_example))
   \<and> nmi_output (ppu (bus_ctx (nes_step_frame_body ppuctrl_example)))
   \<and> nmi_occurred (ppu (bus_ctx (nes_step_frame_body ppuctrl_example)))
   \<and> ctrl (ppu (bus_ctx (nes_step_frame_body ppuctrl_example))) = 0x80
   \<and> cycle (ppu (bus_ctx (nes_step_frame_body ppuctrl_example))) = 12
   \<and> pc (nes_step_frame_body ppuctrl_example) = pc ppuctrl_example + 3
   \<and> sp (nes_step_frame_body ppuctrl_example) = sp ppuctrl_example
   \<and> cycles (nes_step_frame_body ppuctrl_example) = cycles ppuctrl_example + 4
   \<and> sp (cpu6502_nmi (cpu6502_step ppuctrl_example)) = sp ppuctrl_example - 3
   \<and> cycles (cpu6502_nmi (cpu6502_step ppuctrl_example)) = cycles ppuctrl_example + 4 + 7"
proof -
  define m1 where "m1 = cpu6502_step ppuctrl_example"
  have w: "nes_bus_write (bus_ctx ppuctrl_example) 0x2000 0x80 =
      (bus_ctx ppuctrl_example)\<lparr>ppu := (ppu (bus_ctx ppuctrl_example))\<lparr>ctrl := 0x80, nmi_output := True,
         t := (t (ppu (bus_ctx ppuctrl_example)) AND 0xF3FF) OR push_bit 10 (ucast (0x80 AND 0x03 :: u8))\<rparr>\<rparr>"
    by (rule ppuctrl_write_effect) (simp_all add: ppuctrl_example_facts bit_iff_odd)
  have m1: "pc m1 = 0x8003" "sp m1 = 0xFD" "cycles m1 = 11"
    "scanline (ppu (bus_ctx m1)) = 245" "cycle (ppu (bus_ctx m1)) = 0"
    "nmi_output (ppu (bus_ctx m1))" "nmi_occurred (ppu (bus_ctx m1))" "ctrl (ppu (bus_ctx m1)) = 0x80"
    by (simp_all add: m1_def ppuctrl_example_step w ppuctrl_example_facts)
  have body: "nes_step_frame_body ppuctrl_example = (ppu_tick ^^ 12) m1"
    by (simp add: nes_step_frame_body_def Let_def ppuctrl_example_facts m1_def [symmetric] m1)
  have ticks: "(ppu_tick ^^ 12) m1 =
      m1\<lparr>bus_ctx := (bus_ctx m1)\<lparr>ppu := (ppu (bus_ctx m1))\<lparr>cycle := cycle (ppu (bus_ctx m1)) + int 12\<rparr>\<rparr>\<rparr>"
    by (rule ppu_ticks_idle) (simp_all add: m1)
  have nmi: "sp (cpu6502_nmi m1) = 0xFA" "cycles (cpu6502_nmi m1) = 18"
    by (simp_all add: nmi_entry_effect m1)
  show ?thesis
    by (simp add: body ticks m1 nmi m1_def [symmetric] ppuctrl_example_facts)
qed

section \<open>Controller strobe and serial reads\<close>

text \<open>
  C9, as the code has it.  For every system state, a CPU write to \<^verbatim>\<open>$4016\<close> with bit 0
  set only sets the strobe flag, and leaves the shift registers alone.  A write with bit 0
  clear while the strobe flag is set (a 1-to-0 edge) copies \<^verbatim>\<open>controller[0]\<close> and
  \<^verbatim>\<open>controller[1]\<close> into the two shift registers and clears the flag; with the flag
  clear it changes nothing.  A read of \<^verbatim>\<open>$4016\<close> or \<^verbatim>\<open>$4017\<close> returns bit 0 of the
  shift register and shifts it right, whether the strobe flag is set or not.
\<close>

theorem strobe_write_and_read:
  "nes_bus_write nes 0x4016 val =
     (if bit val 0 then nes\<lparr>controller_strobe := True\<rparr>
      else if controller_strobe nes then
        nes\<lparr>controller_shift := (controller_shift nes)(0 := controller nes 0, 1 := controller nes 1),
            controller_strobe := False\<rparr>
      else nes)
   \<and> nes_bus_read nes 0x4016 =
     (if bit (controller_shift nes 0) 0 then 1 else 0,
      nes\<lparr>controller_shift := (controller_shift nes)(0 := drop_bit 1 (controller_shift nes 0))\<rparr>)
   \<and> nes_bus_read nes 0x4017 =
     (if bit (controller_shift nes 1) 0 then 1 else 0,
      nes\<lparr>controller_shift := (controller_shift nes)(1 := drop_bit 1 (controller_shift nes 1))\<rparr>)"
  by (simp add: nes_bus_write_def nes_bus_read_def Let_def u8_bit0 u8_and_1)

text \<open>
  C9 as stated says that reads reflect the live controller state while the strobe is
  high.  With button A down (\<^verbatim>\<open>controller[0] = $01\<close>), an empty shift register and the
  strobe just written high, the read of \<^verbatim>\<open>$4016\<close> returns 0.
\<close>

theorem strobe_high_read_counterexample:
  "bit (controller (nes_bus_write button_a_example 0x4016 0x01) 0) 0
   \<and> controller_strobe (nes_bus_write button_a_example 0x4016 0x01)
   \<and> fst (nes_bus_read (nes_bus_write button_a_example 0x4016 0x01) 0x4016) = 0"
  by (simp add: nes_bus_write_def nes_bus_read_def button_a_example_facts)

text \<open>
  C10.  For every system state with the strobe flag set and every byte \<open>val\<close> with bit 0
  clear, after the write of \<open>val\<close> to \<^verbatim>\<open>$4016\<close> (the 1-to-0 edge, which latches the
  controller byte \<open>c = controller[0]\<close>), the first \<open>n\<close> CPU reads of \<^verbatim>\<open>$4016\<close> return, in
  order, bit \<open>k\<close> of \<open>c\<close> for \<open>k < 8\<close> and 0 for every \<open>k \<ge> 8\<close>: the first eight reads
  return bits 0 to 7, and every read from the ninth onward returns 0.
\<close>

theorem controller_serial_read_order:
  assumes "controller_strobe nes" and "\<not> bit val 0"
  shows "fst (controller_reads n (nes_bus_write nes 0x4016 val)) =
           map (\<lambda>k. if k < 8 \<and> bit (controller nes 0) k then 1 else 0) [0..<n]"
proof -
  have latched: "controller_shift (nes_bus_write nes 0x4016 val) 0 = controller nes 0"
    using assms by (simp add: nes_bus_write_def u8_bit0)
  have "bit (controller nes 0) k = (k < 8 \<and> bit (controller nes 0) k)" for k
    using bit_imp_le_length [of "controller nes 0" k] by auto
  then show ?thesis
    by (simp add: controller_reads_shift latched cong: if_cong)
qed

theorem controller_serial_read_order_witness:
  "controller_strobe strobe_high_example \<and> \<not> bit (0x00 :: u8) 0
   \<and> controller strobe_high_example 0 = 0xA5
   \<and> fst (controller_reads 10 (nes_bus_write strobe_high_example 0x4016 0x00))
       = [1, 0, 1, 0, 0, 1, 0, 1, 0, 0]"
proof -
  have h: "controller_strobe strobe_high_example" "\<not> bit (0x00 :: u8) 0"
    by (simp_all add: strobe_high_example_facts)
  have bits: "map (\<lambda>k. if k < 8 \<and> bit (0xA5 :: u8) k then 1 else 0) [0..<10]
      = [1, 0, 1, 0, 0, 1, 0, 1, 0, 0 :: u8]"
    by (simp add: upt_rec bit_iff_odd drop_bit_eq_div)
  have "fst (controller_reads 10 (nes_bus_write strobe_high_example 0x4016 0x00))
      = map (\<lambda>k. if k < 8 \<and> bit (0xA5 :: u8) k then 1 else 0) [0..<10]"
    using controller_serial_read_order [OF h, of 10]
    by (simp only: strobe_high_example_facts)
  then have "fst (controller_reads 10 (nes_bus_write strobe_high_example 0x4016 0x00))
      = [1, 0, 1, 0, 0, 1, 0, 1, 0, 0]"
    by (simp only: bits)
  with h show ?thesis
    by (simp add: strobe_high_example_facts)
qed

end
